theory Spec2Isabelle
  imports Complex_Main
begin

section \<open>Data model\<close>

text \<open>
  The service of \<^verbatim>\<open>src/backend/main.py\<close> loads a delimited table, merges its date and
  time columns, coerces the other columns to numbers, drops incomplete rows, and hands the
  seven feature columns to a scaler and an isolation forest of an external library.

  A Python exception is a value: \<open>HTTPException\<close> carries the status code and the
  detail of FastAPI's exception, \<open>PyError\<close> stands for any other exception and carries
  its message. Every fallible step returns \<open>exn + 'a\<close>, with \<open>Inl\<close> for the raise.
\<close>

datatype exn = HTTPException nat string | PyError string

text \<open>
  A cell of a data frame: a missing value (\<open>NaN\<close>, also pandas' \<open>NaT\<close>), a number, a text
  or a timestamp. Numbers are rationals: the rounding of Python's floats is not modelled.
\<close>

datatype cell = NaN | Num rat | Str string | Ts int

text \<open>
  A data frame keeps its column names in order and its rows with their index label (the
  position of the row in the file, which filtering and sorting keep). A row maps a column
  name to a cell; only the names listed in \<open>columns\<close> are columns of the frame.
\<close>

record frame =
  columns :: "string list"
  rows :: "(nat \<times> (string \<Rightarrow> cell)) list"

text \<open>\<open>df[c]\<close>: the values of a column with their index labels.\<close>

definition series :: "string \<Rightarrow> frame \<Rightarrow> (nat \<times> cell) list" where
  "series c df = map (\<lambda>(i, r). (i, r c)) (rows df)"

text \<open>
  What the imported libraries compute is a parameter of the model: the tokenizer and the
  parsers of pandas, the scaler and the isolation forest of scikit-learn, the rendering of
  an exception and of a timestamp. A library call that raises returns \<open>Inl\<close> of the message.
  \<open>'sc\<close> is the scaler object, \<open>'md\<close> the forest, \<open>'x\<close> the scaled feature matrix.
  \<^item> \<open>tokenize sep text\<close>: the header and the data rows of a delimited text, as fields;
  \<^item> \<open>to_number s\<close>: the number a field denotes, if any (\<open>pd.to_numeric\<close> on one value);
  \<^item> \<open>to_datetime fmt s\<close>: \<open>pd.to_datetime(s, format=fmt, errors='coerce')\<close> on one
    value, \<open>None\<close> for \<open>NaT\<close>; the format \<open>None\<close> lets pandas infer it;
  \<^item> \<open>isoformat t\<close>: \<open>Timestamp.isoformat()\<close>;
  \<^item> \<open>str_http code detail\<close>: \<open>str(e)\<close> of an \<open>HTTPException\<close>;
  \<^item> \<open>transform\<close>, \<open>fit_transform\<close> of \<open>StandardScaler\<close>; \<open>new_scaler\<close> is
    \<open>StandardScaler()\<close> before any fit;
  \<^item> \<open>new_forest n c seed\<close> is \<open>IsolationForest(n_estimators=n, contamination=c,
    random_state=seed)\<close> before any fit; \<open>fit\<close>, \<open>predict\<close>, \<open>decision_function\<close>;
  \<^item> \<open>sample n seed len\<close>: the row positions \<open>DataFrame.sample(n, random_state=seed)\<close>
    draws from a frame of \<open>len\<close> rows.
\<close>

record ('sc, 'md, 'x) lib =
  tokenize :: "char \<Rightarrow> string \<Rightarrow> string + (string list \<times> string list list)"
  to_number :: "string \<Rightarrow> rat option"
  to_datetime :: "string option \<Rightarrow> string \<Rightarrow> int option"
  isoformat :: "int \<Rightarrow> string"
  str_http :: "nat \<Rightarrow> string \<Rightarrow> string"
  transform :: "'sc \<Rightarrow> cell list list \<Rightarrow> string + 'x"
  new_scaler :: "'sc"
  fit_transform :: "'sc \<Rightarrow> cell list list \<Rightarrow> string + ('sc \<times> 'x)"
  new_forest :: "nat \<Rightarrow> rat \<Rightarrow> nat \<Rightarrow> 'md"
  fit :: "'md \<Rightarrow> 'x \<Rightarrow> string + 'md"
  predict :: "'md \<Rightarrow> 'x \<Rightarrow> string + int list"
  decision_function :: "'md \<Rightarrow> 'x \<Rightarrow> string + rat list"
  sample :: "nat \<Rightarrow> nat \<Rightarrow> nat \<Rightarrow> nat list"

text \<open>\<open>str(e)\<close> of a caught exception.\<close>

fun str_exn :: "('sc, 'md, 'x) lib \<Rightarrow> exn \<Rightarrow> string" where
  "str_exn L (HTTPException code detail) = str_http L code detail"
| "str_exn L (PyError msg) = msg"

text \<open>A library call inside the service: its exception is an ordinary Python exception.\<close>

definition call :: "string + 'a \<Rightarrow> exn + 'a" where
  "call r = (case r of Inl msg \<Rightarrow> Inl (PyError msg) | Inr v \<Rightarrow> Inr v)"

text \<open>
  The process-wide \<open>model\<close> and \<open>scaler\<close> (line 94), \<open>None\<close> until loaded or trained,
  and the files the service reads and writes: the default dataset, the pair of pickles in
  the backend directory and the pair in the \<open>models\<close> subdirectory. A file that is
  absent is \<open>None\<close>; a pickle that \<open>joblib.load\<close> cannot read is \<open>Corrupt\<close>.
\<close>

record ('sc, 'md) state =
  model :: "'md option"
  scaler :: "'sc option"

datatype 'a pkl = Corrupt | Pickled 'a

record ('sc, 'md) files =
  DEFAULT_DATA_FILE :: "string option"
  DEFAULT_MODEL_FILE :: "'md pkl option"
  DEFAULT_SCALER_FILE :: "'sc pkl option"
  MODEL_PATH_model :: "'md pkl option"
  MODEL_PATH_scaler :: "'sc pkl option"

definition joblib_load :: "'a pkl \<Rightarrow> exn + 'a" where
  "joblib_load p = (case p of Corrupt \<Rightarrow> Inl (PyError ''UnpicklingError'') | Pickled v \<Rightarrow> Inr v)"

text \<open>
  An uploaded file: its name and its bytes decoded as UTF-8, \<open>None\<close> when the bytes are
  not valid UTF-8 (\<open>contents.decode("utf-8")\<close> raises).
\<close>

record upload =
  filename :: string
  contents :: "string option"

text \<open>An entry of the \<open>anomalies\<close> list and the body of a prediction response (lines 96-100).\<close>

record anomaly_data =
  datetime :: "string option"
  global_active_power :: cell
  global_reactive_power :: cell
  voltage :: cell
  global_intensity :: cell
  sub_metering_1 :: cell
  sub_metering_2 :: cell
  sub_metering_3 :: cell
  anomaly_score :: cell

record PredictionResponse =
  anomalies :: "anomaly_data list"
  anomaly_count :: nat
  total_records :: nat
  anomaly_percentage :: rat

text \<open>The status code of a response: 200 for a body, the code of the \<open>HTTPException\<close> raised.\<close>

fun status :: "exn + 'a \<Rightarrow> nat" where
  "status (Inr _) = 200"
| "status (Inl (HTTPException code _)) = code"
| "status (Inl (PyError _)) = 500"

section \<open>Model store (lines 35-61)\<close>

definition load_model :: "('sc, 'md) files \<Rightarrow> 'md option \<times> 'sc option" where
  "load_model fs =
     (if DEFAULT_MODEL_FILE fs \<noteq> None \<and> DEFAULT_SCALER_FILE fs \<noteq> None then
        (case (DEFAULT_MODEL_FILE fs, DEFAULT_SCALER_FILE fs) of
           (Some (Pickled m), Some (Pickled s)) \<Rightarrow> (Some m, Some s)
         | _ \<Rightarrow> (None, None))
      else if MODEL_PATH_model fs \<noteq> None \<and> MODEL_PATH_scaler fs \<noteq> None then
        (case (MODEL_PATH_model fs, MODEL_PATH_scaler fs) of
           (Some (Pickled m), Some (Pickled s)) \<Rightarrow> (Some m, Some s)
         | _ \<Rightarrow> (None, None))
      else (None, None))"

section \<open>Dataset loader\<close>

text \<open>
  \<open>pd.read_csv(text, sep=sep, na_values=na)\<close>. A field is missing when the row is too
  short for its column or when its text is one of pandas' default markers of a missing
  value or one of \<open>na\<close>; any other field keeps its text (fields beyond the header
  are not read: pandas rejects such a row while it tokenizes). pandas also decides for each
  column whether it holds numbers or text; that decision is \<open>numeric_dtype\<close> below.
\<close>

definition STR_NA_VALUES :: "string list" where
  "STR_NA_VALUES = ['''', ''#N/A'', ''#N/A N/A'', ''#NA'', ''-1.#IND'', ''-1.#QNAN'', ''-NaN'',
     ''-nan'', ''1.#IND'', ''1.#QNAN'', ''<NA>'', ''N/A'', ''NA'', ''NULL'', ''NaN'', ''None'',
     ''n/a'', ''nan'', ''null'']"

definition field :: "string list \<Rightarrow> string list \<Rightarrow> string \<Rightarrow> string option" where
  "field hdr vals c = map_of (zip hdr vals) c"

definition read_cell :: "string list \<Rightarrow> string option \<Rightarrow> cell" where
  "read_cell na v =
     (case v of None \<Rightarrow> NaN
      | Some s \<Rightarrow> if s \<in> set (STR_NA_VALUES @ na) then NaN else Str s)"

definition read_row :: "string list \<Rightarrow> string list \<Rightarrow> string list \<Rightarrow> string \<Rightarrow> cell" where
  "read_row na hdr vals = (\<lambda>c. read_cell na (field hdr vals c))"

definition read_csv ::
  "('sc, 'md, 'x) lib \<Rightarrow> char \<Rightarrow> string list \<Rightarrow> string \<Rightarrow> exn + frame" where
  "read_csv L sep na text =
     (case call (tokenize L sep text) of
        Inl e \<Rightarrow> Inl e
      | Inr (hdr, raws) \<Rightarrow>
          Inr \<lparr>columns = hdr,
               rows = zip [0..<length raws] (map (read_row na hdr) raws)\<rparr>)"

text \<open>
  A column that pandas reads as numbers: the frame has rows and every value of the
  column that is present denotes a number.
\<close>

definition numeric_dtype :: "('sc, 'md, 'x) lib \<Rightarrow> frame \<Rightarrow> string \<Rightarrow> bool" where
  "numeric_dtype L df c \<longleftrightarrow>
     rows df \<noteq> [] \<and>
     list_all (\<lambda>(i, r). case r c of Str s \<Rightarrow> to_number L s \<noteq> None | _ \<Rightarrow> True) (rows df)"

text \<open>
  Lines 75-77 (the same text as lines 134-136 and 224-226). The sum
  \<open>df['Date'] + ' ' + df['Time']\<close> joins two texts, is missing where one of them is, and
  raises \<open>TypeError\<close> on a column of numbers. \<open>df['Datetime'] = ...\<close> replaces a column of
  that name or appends one; \<open>drop\<close> removes the two source columns.
\<close>

definition datetime_format :: string where
  "datetime_format = ''%d/%m/%Y %H:%M:%S''"

definition merge_cell :: "('sc, 'md, 'x) lib \<Rightarrow> cell \<Rightarrow> cell \<Rightarrow> cell" where
  "merge_cell L d t =
     (case (d, t) of
        (Str a, Str b) \<Rightarrow>
          (case to_datetime L (Some datetime_format) (a @ '' '' @ b) of
             None \<Rightarrow> NaN | Some ts \<Rightarrow> Ts ts)
      | _ \<Rightarrow> NaN)"

definition handle_date_time :: "('sc, 'md, 'x) lib \<Rightarrow> frame \<Rightarrow> exn + frame" where
  "handle_date_time L df =
     (if ''Date'' \<in> set (columns df) \<and> ''Time'' \<in> set (columns df) then
        if numeric_dtype L df ''Date'' \<or> numeric_dtype L df ''Time'' then
          Inl (PyError ''TypeError'')
        else
          Inr \<lparr>columns = filter (\<lambda>c. c \<noteq> ''Date'' \<and> c \<noteq> ''Time'')
                   (if ''Datetime'' \<in> set (columns df) then columns df
                    else columns df @ [''Datetime'']),
               rows = map (\<lambda>(i, r). (i, r(''Datetime'' := merge_cell L (r ''Date'') (r ''Time''))))
                   (rows df)\<rparr>
      else Inr df)"

text \<open>
  Lines 80-82 (and 139-141, 229-231): \<open>pd.to_numeric(df[col], errors='coerce')\<close> on
  every column but \<open>Datetime\<close>, one column after the other.
\<close>

fun coerce :: "('sc, 'md, 'x) lib \<Rightarrow> cell \<Rightarrow> cell" where
  "coerce L (Str s) = (case to_number L s of None \<Rightarrow> NaN | Some x \<Rightarrow> Num x)"
| "coerce L (Num x) = Num x"
| "coerce L (Ts t) = Num (of_int t)"
| "coerce L NaN = NaN"

primrec to_numeric_columns :: "('sc, 'md, 'x) lib \<Rightarrow> string list \<Rightarrow> frame \<Rightarrow> frame" where
  "to_numeric_columns L [] df = df"
| "to_numeric_columns L (col # cols) df =
     to_numeric_columns L cols
       (if col \<noteq> ''Datetime'' then
          df\<lparr>rows := map (\<lambda>(i, r). (i, r(col := coerce L (r col)))) (rows df)\<rparr>
        else df)"

text \<open>Lines 85, 144, 234: \<open>df.dropna(inplace=True)\<close> keeps the rows with no missing value.\<close>

definition dropna :: "frame \<Rightarrow> frame" where
  "dropna df = df\<lparr>rows := filter (\<lambda>(i, r). list_all (\<lambda>c. r c \<noteq> NaN) (columns df)) (rows df)\<rparr>"

text \<open>
  The three steps after \<open>read_csv\<close>, which \<open>load_default_dataset\<close>, \<open>predict_anomalies\<close>
  and \<open>train_model\<close> each spell out in the same words.
\<close>

definition preprocess :: "('sc, 'md, 'x) lib \<Rightarrow> frame \<Rightarrow> exn + frame" where
  "preprocess L df =
     (case handle_date_time L df of
        Inl e \<Rightarrow> Inl e
      | Inr df1 \<Rightarrow> Inr (dropna (to_numeric_columns L (columns df1) df1)))"

text \<open>Lines 63-91: any exception while loading gives \<open>None\<close>, as a missing file does.\<close>

definition load_default_dataset :: "('sc, 'md, 'x) lib \<Rightarrow> ('sc, 'md) files \<Rightarrow> frame option" where
  "load_default_dataset L fs =
     (case DEFAULT_DATA_FILE fs of
        None \<Rightarrow> None
      | Some text \<Rightarrow>
          (case read_csv L (CHR '';'') [''?''] text of
             Inl e \<Rightarrow> None
           | Inr df \<Rightarrow> (case preprocess L df of Inl e \<Rightarrow> None | Inr df' \<Rightarrow> Some df')))"

text \<open>Python's \<open>str.endswith\<close>.\<close>

definition endswith :: "string \<Rightarrow> string \<Rightarrow> bool" where
  "endswith s suf \<longleftrightarrow> length suf \<le> length s \<and> drop (length s - length suf) s = suf"

text \<open>Lines 122-144 of \<open>predict_anomalies\<close>, the same text as lines 212-234 of \<open>train_model\<close>.\<close>

definition load_upload :: "('sc, 'md, 'x) lib \<Rightarrow> upload \<Rightarrow> exn + frame" where
  "load_upload L file =
     (case contents file of
        None \<Rightarrow> Inl (PyError ''UnicodeDecodeError'')
      | Some text \<Rightarrow>
          (case (if endswith (filename file) ''.csv'' then read_csv L (CHR '','') [] text
                 else if endswith (filename file) ''.txt'' then read_csv L (CHR '';'') [''?''] text
                 else Inl (HTTPException 400
                        ''Unsupported file format. Please upload a .csv or .txt file'')) of
             Inl e \<Rightarrow> Inl e
           | Inr df \<Rightarrow> preprocess L df))"

section \<open>Feature pipeline and prediction shaping\<close>

definition features :: "string list" where
  "features = [''Global_active_power'', ''Global_reactive_power'', ''Voltage'',
     ''Global_intensity'', ''Sub_metering_1'', ''Sub_metering_2'', ''Sub_metering_3'']"

text \<open>Lines 151, 241: \<open>[f for f in features if f not in df.columns]\<close>.\<close>

definition missing_features :: "frame \<Rightarrow> string list" where
  "missing_features df = filter (\<lambda>f. f \<notin> set (columns df)) features"

text \<open>Python's rendering of a list of plain names inside an f-string: \<open>['a', 'b']\<close>.\<close>

fun join :: "string \<Rightarrow> string list \<Rightarrow> string" where
  "join sep [] = []"
| "join sep [x] = x"
| "join sep (x # y # ys) = x @ sep @ join sep (y # ys)"

definition repr_list :: "string list \<Rightarrow> string" where
  "repr_list xs = ''['' @ join '', '' (map (\<lambda>x. [CHR 0x27] @ x @ [CHR 0x27]) xs) @ '']''"

text \<open>Sequencing of fallible steps: the first exception ends the block.\<close>

definition bindE :: "exn + 'a \<Rightarrow> ('a \<Rightarrow> exn + 'b) \<Rightarrow> exn + 'b" where
  "bindE m f = (case m of Inl e \<Rightarrow> Inl e | Inr v \<Rightarrow> f v)"

fun mapE :: "('a \<Rightarrow> exn + 'b) \<Rightarrow> 'a list \<Rightarrow> exn + 'b list" where
  "mapE f [] = Inr []"
| "mapE f (x # xs) = bindE (f x) (\<lambda>y. bindE (mapE f xs) (\<lambda>ys. Inr (y # ys)))"

text \<open>\<open>X = df[features]\<close>: \<open>KeyError\<close> when a feature is not a column.\<close>

definition feature_matrix :: "frame \<Rightarrow> cell list list" where
  "feature_matrix df = map (\<lambda>(i, r). map r features) (rows df)"

definition select_features :: "frame \<Rightarrow> exn + cell list list" where
  "select_features df =
     (if missing_features df \<noteq> [] then Inl (PyError ''KeyError'')
      else Inr (feature_matrix df))"

text \<open>\<open>df[name] = values\<close>: \<open>ValueError\<close> unless there is one value for each row.\<close>

definition set_column :: "string \<Rightarrow> cell list \<Rightarrow> frame \<Rightarrow> exn + frame" where
  "set_column name vals df =
     (if length vals \<noteq> length (rows df) then Inl (PyError ''ValueError'')
      else Inr \<lparr>columns = (if name \<in> set (columns df) then columns df else columns df @ [name]),
                rows = map (\<lambda>((i, r), v). (i, r(name := v))) (zip (rows df) vals)\<rparr>)"

text \<open>Lines 165, 345, 437: \<open>.map({1: 0, -1: 1})\<close>; a label outside the dictionary is missing.\<close>

definition map_label :: "int \<Rightarrow> cell" where
  "map_label p = (if p = 1 then Num 0 else if p = - 1 then Num 1 else NaN)"

text \<open>Lines 156-166, the same text as lines 336-346 and 428-438.\<close>

definition detect :: "('sc, 'md, 'x) lib \<Rightarrow> 'md \<Rightarrow> 'sc \<Rightarrow> frame \<Rightarrow> exn + frame" where
  "detect L md sc df =
     bindE (select_features df) (\<lambda>X.
     bindE (call (transform L sc X)) (\<lambda>X_scaled.
     bindE (call (predict L md X_scaled)) (\<lambda>predictions.
     bindE (call (decision_function L md X_scaled)) (\<lambda>anomaly_scores.
     bindE (set_column ''anomaly'' (map map_label predictions) df) (\<lambda>df1.
       set_column ''anomaly_score'' (map Num anomaly_scores) df1)))))"

text \<open>\<open>df[df['anomaly'] == 1]\<close>.\<close>

definition anomaly_rows :: "frame \<Rightarrow> (nat \<times> (string \<Rightarrow> cell)) list" where
  "anomaly_rows df = filter (\<lambda>(i, r). r ''anomaly'' = Num 1) (rows df)"

text \<open>
  \<open>row["Datetime"].isoformat() if "Datetime" in row.index else None\<close>: only a timestamp
  has \<open>isoformat\<close>. \<open>float(v)\<close> keeps a number.
\<close>

definition row_datetime :: "('sc, 'md, 'x) lib \<Rightarrow> frame \<Rightarrow> (string \<Rightarrow> cell) \<Rightarrow> exn + string option" where
  "row_datetime L df r =
     (if ''Datetime'' \<in> set (columns df) then
        (case r ''Datetime'' of
           Ts t \<Rightarrow> Inr (Some (isoformat L t))
         | _ \<Rightarrow> Inl (PyError ''AttributeError''))
      else Inr None)"

definition float_cell :: "('sc, 'md, 'x) lib \<Rightarrow> cell \<Rightarrow> exn + cell" where
  "float_cell L c =
     (case c of
        Num x \<Rightarrow> Inr (Num x)
      | NaN \<Rightarrow> Inr NaN
      | Str s \<Rightarrow> (case to_number L s of None \<Rightarrow> Inl (PyError ''ValueError'') | Some x \<Rightarrow> Inr (Num x))
      | Ts t \<Rightarrow> Inl (PyError ''TypeError''))"

text \<open>Lines 173-183 and 445-455: the entry of one anomalous row.\<close>

definition anomaly_entry ::
  "('sc, 'md, 'x) lib \<Rightarrow> frame \<Rightarrow> nat \<times> (string \<Rightarrow> cell) \<Rightarrow> exn + anomaly_data" where
  "anomaly_entry L df = (\<lambda>(i, r).
     bindE (row_datetime L df r) (\<lambda>dt.
     bindE (float_cell L (r ''anomaly_score'')) (\<lambda>score.
       Inr \<lparr>datetime = dt,
            global_active_power = r ''Global_active_power'',
            global_reactive_power = r ''Global_reactive_power'',
            voltage = r ''Voltage'',
            global_intensity = r ''Global_intensity'',
            sub_metering_1 = r ''Sub_metering_1'',
            sub_metering_2 = r ''Sub_metering_2'',
            sub_metering_3 = r ''Sub_metering_3'',
            anomaly_score = score\<rparr>)))"

text \<open>Lines 364-374: \<open>get_anomalies\<close> passes every feature through \<open>float\<close> as well.\<close>

definition anomaly_entry_float ::
  "('sc, 'md, 'x) lib \<Rightarrow> frame \<Rightarrow> nat \<times> (string \<Rightarrow> cell) \<Rightarrow> exn + anomaly_data" where
  "anomaly_entry_float L df = (\<lambda>(i, r).
     bindE (row_datetime L df r) (\<lambda>dt.
     bindE (float_cell L (r ''Global_active_power'')) (\<lambda>v1.
     bindE (float_cell L (r ''Global_reactive_power'')) (\<lambda>v2.
     bindE (float_cell L (r ''Voltage'')) (\<lambda>v3.
     bindE (float_cell L (r ''Global_intensity'')) (\<lambda>v4.
     bindE (float_cell L (r ''Sub_metering_1'')) (\<lambda>v5.
     bindE (float_cell L (r ''Sub_metering_2'')) (\<lambda>v6.
     bindE (float_cell L (r ''Sub_metering_3'')) (\<lambda>v7.
     bindE (float_cell L (r ''anomaly_score'')) (\<lambda>score.
       Inr \<lparr>datetime = dt,
            global_active_power = v1,
            global_reactive_power = v2,
            voltage = v3,
            global_intensity = v4,
            sub_metering_1 = v5,
            sub_metering_2 = v6,
            sub_metering_3 = v7,
            anomaly_score = score\<rparr>))))))))))"

text \<open>Lines 186-196, 377-387, 458-468: the statistics and the body of the response.\<close>

definition make_response :: "anomaly_data list \<Rightarrow> frame \<Rightarrow> PredictionResponse" where
  "make_response anoms df =
     (let total_anomalies = length anoms;
          total = length (rows df)
      in \<lparr>anomalies = anoms,
          anomaly_count = total_anomalies,
          total_records = total,
          anomaly_percentage =
            (if total > 0 then (of_nat total_anomalies / of_nat total) * 100 else 0)\<rparr>)"

text \<open>
  \<open>except Exception as e: raise HTTPException(status_code=500, detail=prefix + str(e))\<close>
  catches every exception of the block, an \<open>HTTPException\<close> too. \<open>get_anomalies\<close> puts
  \<open>except HTTPException: raise\<close> before it (lines 389-390).
\<close>

definition except_Exception :: "('sc, 'md, 'x) lib \<Rightarrow> string \<Rightarrow> exn + 'a \<Rightarrow> exn + 'a" where
  "except_Exception L prefix r =
     (case r of Inl e \<Rightarrow> Inl (HTTPException 500 (prefix @ str_exn L e)) | Inr v \<Rightarrow> Inr v)"

definition except_HTTPException_raise ::
  "('sc, 'md, 'x) lib \<Rightarrow> string \<Rightarrow> exn + 'a \<Rightarrow> exn + 'a" where
  "except_HTTPException_raise L prefix r =
     (case r of
        Inl (HTTPException code detail) \<Rightarrow> Inl (HTTPException code detail)
      | Inl (PyError msg) \<Rightarrow> Inl (HTTPException 500 (prefix @ msg))
      | Inr v \<Rightarrow> Inr v)"

section \<open>POST /predict (lines 106-199)\<close>

text \<open>Lines 116-144 and 207-234: the default dataset when no file is sent.\<close>

definition request_frame ::
  "('sc, 'md, 'x) lib \<Rightarrow> ('sc, 'md) files \<Rightarrow> upload option \<Rightarrow> exn + frame" where
  "request_frame L fs file =
     (case file of
        None \<Rightarrow>
          (case load_default_dataset L fs of
             None \<Rightarrow> Inl (HTTPException 400 ''No file provided and default dataset not found'')
           | Some df \<Rightarrow> Inr df)
      | Some f \<Rightarrow> load_upload L f)"

definition check_features :: "frame \<Rightarrow> exn + frame" where
  "check_features df =
     (if missing_features df \<noteq> [] then
        Inl (HTTPException 400 (''Missing required features: '' @ repr_list (missing_features df)))
      else Inr df)"

definition predict_anomalies ::
  "('sc, 'md, 'x) lib \<Rightarrow> ('sc, 'md) state \<Rightarrow> ('sc, 'md) files \<Rightarrow> upload option
     \<Rightarrow> exn + PredictionResponse" where
  "predict_anomalies L st fs file =
     (case (model st, scaler st) of
        (Some md, Some sc) \<Rightarrow>
          except_Exception L ''Error processing file: ''
            (bindE (request_frame L fs file) (\<lambda>df0.
             bindE (check_features df0) (\<lambda>df1.
             bindE (detect L md sc df1) (\<lambda>df.
             bindE (mapE (anomaly_entry L df) (anomaly_rows df)) (\<lambda>anoms.
               Inr (make_response anoms df))))))
      | _ \<Rightarrow> Inl (HTTPException 500
                 ''Model not trained yet. Please upload a training dataset first.''))"

section \<open>POST /train (lines 201-274)\<close>

text \<open>
  Lines 254-255 and 258-259: \<open>scaler = StandardScaler()\<close>, then \<open>fit_transform\<close>. The
  global holds the new, unfitted scaler when \<open>fit_transform\<close> raises.
\<close>

definition fit_new_scaler :: "('sc, 'md, 'x) lib \<Rightarrow> cell list list \<Rightarrow> 'sc \<times> (exn + 'x)" where
  "fit_new_scaler L X =
     (case fit_transform L (new_scaler L) X of
        Inl msg \<Rightarrow> (new_scaler L, Inl (PyError msg))
      | Inr (sc, X_scaled) \<Rightarrow> (sc, Inr X_scaled))"

text \<open>
  Lines 248-259. The result is the scaler the global \<open>scaler\<close> holds afterwards and the
  scaled matrix, or the exception that leaves the block. Any exception of the inner
  \<open>try\<close> (of \<open>joblib.load\<close>, of \<open>transform\<close>, of the first \<open>fit_transform\<close>) leads
  to the handler of lines 256-259, which fits a new scaler.
\<close>

definition scale_for_training ::
  "('sc, 'md, 'x) lib \<Rightarrow> ('sc, 'md) files \<Rightarrow> cell list list \<Rightarrow> 'sc \<times> (exn + 'x)" where
  "scale_for_training L fs X =
     (case DEFAULT_SCALER_FILE fs of
        Some p \<Rightarrow>
          (case joblib_load p of
             Inl e \<Rightarrow> fit_new_scaler L X
           | Inr sc \<Rightarrow>
               (case transform L sc X of
                  Inl msg \<Rightarrow> fit_new_scaler L X
                | Inr X_scaled \<Rightarrow> (sc, Inr X_scaled)))
      | None \<Rightarrow>
          (case fit_transform L (new_scaler L) X of
             Inl msg \<Rightarrow> fit_new_scaler L X
           | Inr (sc, X_scaled) \<Rightarrow> (sc, Inr X_scaled)))"

text \<open>
  Lines 266-269: both artifacts are written to both places (a write that fails is not
  modelled).
\<close>

definition dump_artifacts :: "'md \<Rightarrow> 'sc \<Rightarrow> ('sc, 'md) files \<Rightarrow> ('sc, 'md) files" where
  "dump_artifacts md sc fs =
     fs\<lparr>DEFAULT_MODEL_FILE := Some (Pickled md),
        DEFAULT_SCALER_FILE := Some (Pickled sc),
        MODEL_PATH_model := Some (Pickled md),
        MODEL_PATH_scaler := Some (Pickled sc)\<rparr>"

text \<open>
  The operation returns the new globals, the new files and the response. The globals are
  assigned as the block runs (lines 251, 254, 258, 262), so an exception after an
  assignment leaves the assigned object in place.
\<close>

definition train_model ::
  "('sc, 'md, 'x) lib \<Rightarrow> ('sc, 'md) state \<Rightarrow> ('sc, 'md) files \<Rightarrow> upload option
     \<Rightarrow> ('sc, 'md) state \<times> ('sc, 'md) files \<times> (exn + string)" where
  "train_model L st fs file =
     (case bindE (request_frame L fs file) check_features of
        Inl e \<Rightarrow> (st, fs, except_Exception L ''Error training model: '' (Inl e))
      | Inr df \<Rightarrow>
          (let X = feature_matrix df;
               (sc, scaled) = scale_for_training L fs X
           in case scaled of
                Inl e \<Rightarrow>
                  (st\<lparr>scaler := Some sc\<rparr>, fs,
                   except_Exception L ''Error training model: '' (Inl e))
              | Inr X_scaled \<Rightarrow>
                  (let forest = new_forest L 100 (1 / 100) 42
                   in case fit L forest X_scaled of
                        Inl msg \<Rightarrow>
                          (\<lparr>model = Some forest, scaler = Some sc\<rparr>, fs,
                           except_Exception L ''Error training model: '' (Inl (PyError msg)))
                      | Inr md \<Rightarrow>
                          (\<lparr>model = Some md, scaler = Some sc\<rparr>, dump_artifacts md sc fs,
                           Inr ''Model trained and saved successfully''))))"

section \<open>GET /anomalies (lines 276-396)\<close>

text \<open>Python's truth value of an optional text: \<open>None\<close> and the empty text are false.\<close>

definition truthy :: "string option \<Rightarrow> bool" where
  "truthy v \<longleftrightarrow> (case v of None \<Rightarrow> False | Some s \<Rightarrow> s \<noteq> [])"

text \<open>
  \<open>df[df["Datetime"] >= t]\<close> and \<open>df[df["Datetime"] <= t]\<close>: a column of timestamps is
  compared value by value; a value that is no timestamp cannot be compared (\<open>TypeError\<close>).
\<close>

definition is_Ts :: "cell \<Rightarrow> bool" where
  "is_Ts c = (case c of Ts t \<Rightarrow> True | _ \<Rightarrow> False)"

definition filter_datetime :: "(int \<Rightarrow> bool) \<Rightarrow> frame \<Rightarrow> exn + frame" where
  "filter_datetime keep df =
     (if list_all (\<lambda>(i, r). is_Ts (r ''Datetime'')) (rows df) then
        Inr (df\<lparr>rows := filter (\<lambda>(i, r). case r ''Datetime'' of Ts u \<Rightarrow> keep u | _ \<Rightarrow> False)
                          (rows df)\<rparr>)
      else Inl (PyError ''TypeError''))"

text \<open>
  Lines 298-308 and 310-320. The inner handler turns every exception of the step into a
  400 whose detail repeats the message.
\<close>

definition filter_start_date :: "('sc, 'md, 'x) lib \<Rightarrow> string option \<Rightarrow> frame \<Rightarrow> exn + frame" where
  "filter_start_date L start_date df =
     (if truthy start_date \<and> ''Datetime'' \<in> set (columns df) then
        (case (case to_datetime L None (the start_date) of
                 None \<Rightarrow> Inl (PyError (''Invalid start_date format: '' @ the start_date))
               | Some start_datetime \<Rightarrow> filter_datetime (\<lambda>u. u \<ge> start_datetime) df) of
           Inl e \<Rightarrow> Inl (HTTPException 400 (''Invalid start_date format: '' @ str_exn L e))
         | Inr df' \<Rightarrow> Inr df')
      else Inr df)"

definition filter_end_date :: "('sc, 'md, 'x) lib \<Rightarrow> string option \<Rightarrow> frame \<Rightarrow> exn + frame" where
  "filter_end_date L end_date df =
     (if truthy end_date \<and> ''Datetime'' \<in> set (columns df) then
        (case (case to_datetime L None (the end_date) of
                 None \<Rightarrow> Inl (PyError (''Invalid end_date format: '' @ the end_date))
               | Some end_datetime \<Rightarrow> filter_datetime (\<lambda>u. u \<le> end_datetime) df) of
           Inl e \<Rightarrow> Inl (HTTPException 400 (''Invalid end_date format: '' @ str_exn L e))
         | Inr df' \<Rightarrow> Inr df')
      else Inr df)"

text \<open>
  Line 351: \<open>df.sort_values(by=feature_filter, ascending=False)\<close>. Rows with equal
  values keep their order here; pandas leaves their order to the sorting algorithm.
\<close>

definition sort_values_desc :: "string \<Rightarrow> frame \<Rightarrow> frame" where
  "sort_values_desc col df =
     df\<lparr>rows := sort_key (\<lambda>(i, r). case r col of Num x \<Rightarrow> - x | _ \<Rightarrow> 0) (rows df)\<rparr>"

definition max_anomalies :: nat where
  "max_anomalies = 1000"

text \<open>Lines 284-289 and 407-411: the globals are reloaded from the files when one is \<open>None\<close>.\<close>

definition ensure_model :: "('sc, 'md) state \<Rightarrow> ('sc, 'md) files \<Rightarrow> ('sc, 'md) state" where
  "ensure_model st fs =
     (if model st = None \<or> scaler st = None then
        (case load_model fs of (m, s) \<Rightarrow> \<lparr>model = m, scaler = s\<rparr>)
      else st)"

definition empty_response :: PredictionResponse where
  "empty_response = \<lparr>anomalies = [], anomaly_count = 0, total_records = 0, anomaly_percentage = 0\<rparr>"

definition get_anomalies ::
  "('sc, 'md, 'x) lib \<Rightarrow> ('sc, 'md) state \<Rightarrow> ('sc, 'md) files
     \<Rightarrow> string option \<Rightarrow> string option \<Rightarrow> string option
     \<Rightarrow> ('sc, 'md) state \<times> (exn + PredictionResponse)" where
  "get_anomalies L st fs start_date end_date feature_filter =
     (let st' = ensure_model st fs
      in case (model st', scaler st') of
           (Some md, Some sc) \<Rightarrow>
             (st', except_HTTPException_raise L ''Error analyzing dataset: ''
               (case load_default_dataset L fs of
                  None \<Rightarrow> Inl (HTTPException 404 ''Default dataset not found'')
                | Some df0 \<Rightarrow>
                    bindE (filter_start_date L start_date df0) (\<lambda>df1.
                    bindE (filter_end_date L end_date df1) (\<lambda>df2.
                      if length (rows df2) = 0 then Inr empty_response
                      else
                        bindE (detect L md sc df2) (\<lambda>df3.
                          let df = (if truthy feature_filter \<and> the feature_filter \<in> set features
                                    then sort_values_desc (the feature_filter) df3 else df3)
                          in bindE (mapE (anomaly_entry_float L df)
                                      (take max_anomalies (anomaly_rows df))) (\<lambda>anoms.
                               Inr (make_response anoms df)))))))
         | _ \<Rightarrow> (st', Inl (HTTPException 500
                         ''Models not available. Please train the model first.'')))"

section \<open>GET /analyze-default-data (lines 398-471)\<close>

text \<open>Line 421: the sampled frame holds the rows at the positions the library draws.\<close>

definition sample_rows :: "('sc, 'md, 'x) lib \<Rightarrow> nat \<Rightarrow> frame \<Rightarrow> frame" where
  "sample_rows L n df =
     df\<lparr>rows := map (\<lambda>k. rows df ! k)
                   (filter (\<lambda>k. k < length (rows df)) (sample L n 42 (length (rows df))))\<rparr>"

definition analyze_default_dataset ::
  "('sc, 'md, 'x) lib \<Rightarrow> ('sc, 'md) state \<Rightarrow> ('sc, 'md) files \<Rightarrow> int option
     \<Rightarrow> ('sc, 'md) state \<times> (exn + PredictionResponse)" where
  "analyze_default_dataset L st fs sample_size =
     (let st' = ensure_model st fs
      in case (model st', scaler st') of
           (Some md, Some sc) \<Rightarrow>
             (st', except_Exception L ''Error analyzing default dataset: ''
               (case load_default_dataset L fs of
                  None \<Rightarrow> Inl (HTTPException 404 ''Default dataset not found'')
                | Some df0 \<Rightarrow>
                    (let df1 = (case sample_size of
                                  None \<Rightarrow> df0
                                | Some n \<Rightarrow>
                                    if n \<noteq> 0 \<and> n > 0 \<and> n < int (length (rows df0))
                                    then sample_rows L (nat n) df0 else df0)
                     in bindE (detect L md sc df1) (\<lambda>df.
                        bindE (mapE (anomaly_entry L df) (anomaly_rows df)) (\<lambda>anoms.
                          Inr (make_response anoms df))))))
         | _ \<Rightarrow> (st', Inl (HTTPException 500
                         ''Models not available. Please train the model first.'')))"

section \<open>A small instance of the libraries\<close>

text \<open>
  The theorems below hold for every behaviour of the libraries. Concrete runs need one:
  a tokenizer that splits a text at line breaks and at the separator, a number parser for
  unsigned decimal integers, a timestamp parser that reads
  \<open>dd/mm/yyyy HH:MM:SS\<close> (or \<open>yyyy-mm-dd\<close> when the format is inferred) into the
  number \<open>yyyymmddHHMMSS\<close>, a scaler that subtracts an offset, and a detector that flags a
  row whose first scaled feature exceeds a threshold.
\<close>

fun split_on :: "char \<Rightarrow> string \<Rightarrow> string list" where
  "split_on c [] = [[]]"
| "split_on c (x # xs) =
     (if x = c then [] # split_on c xs
      else (case split_on c xs of [] \<Rightarrow> [[x]] | y # ys \<Rightarrow> (x # y) # ys))"

definition demo_tokenize :: "char \<Rightarrow> string \<Rightarrow> string + (string list \<times> string list list)" where
  "demo_tokenize sep text =
     (case filter (\<lambda>l. l \<noteq> []) (split_on (CHR 0x0A) text) of
        [] \<Rightarrow> Inl ''EmptyDataError''
      | h # ls \<Rightarrow> Inr (split_on sep h, map (split_on sep) ls))"

definition is_digit :: "char \<Rightarrow> bool" where
  "is_digit c \<longleftrightarrow> c \<in> set ''0123456789''"

definition digits_value :: "string \<Rightarrow> int" where
  "digits_value s = foldl (\<lambda>a c. 10 * a + (of_char c - 48)) 0 s"

definition demo_to_number :: "string \<Rightarrow> rat option" where
  "demo_to_number s =
     (if s \<noteq> [] \<and> list_all is_digit s then Some (of_int (digits_value s)) else None)"

definition demo_to_datetime :: "string option \<Rightarrow> string \<Rightarrow> int option" where
  "demo_to_datetime fmt s =
     (let d = filter is_digit s in
      case fmt of
        Some f \<Rightarrow>
          (if length s = 19 \<and> length d = 14 then
             Some (digits_value (take 4 (drop 4 d) @ take 2 (drop 2 d) @ take 2 d @ drop 8 d))
           else None)
      | None \<Rightarrow>
          (if length s = 10 \<and> length d = 8 then Some (digits_value (d @ ''000000''))
           else None))"

function decimal :: "int \<Rightarrow> string" where
  "decimal n =
     (if n < 10 then [char_of (48 + n)] else decimal (n div 10) @ [char_of (48 + n mod 10)])"
  by pat_completeness auto
termination
  by (relation "measure nat") auto

definition first_value :: "cell list \<Rightarrow> rat" where
  "first_value r = (case r of Num x # _ \<Rightarrow> x | _ \<Rightarrow> 0)"

definition demo_transform :: "rat \<Rightarrow> cell list list \<Rightarrow> string + rat list" where
  "demo_transform sc X =
     (if X = [] then Inl ''Found array with 0 sample(s)''
      else Inr (map (\<lambda>r. first_value r - sc) X))"

definition demo_fit_transform :: "rat \<Rightarrow> cell list list \<Rightarrow> string + (rat \<times> rat list)" where
  "demo_fit_transform sc X =
     (case X of
        [] \<Rightarrow> Inl ''Found array with 0 sample(s)''
      | r # _ \<Rightarrow> Inr (first_value r, map (\<lambda>q. first_value q - first_value r) X))"

definition demo_lib :: "(rat, rat, rat list) lib" where
  "demo_lib =
     \<lparr>tokenize = demo_tokenize,
      to_number = demo_to_number,
      to_datetime = demo_to_datetime,
      isoformat = decimal,
      str_http = (\<lambda>code detail. decimal (int code) @ '': '' @ detail),
      transform = demo_transform,
      new_scaler = 0,
      fit_transform = demo_fit_transform,
      new_forest = (\<lambda>n c seed. 0),
      fit = (\<lambda>md xs. Inr 5),
      predict = (\<lambda>md xs. Inr (map (\<lambda>x. if x > md then - 1 else 1) xs)),
      decision_function = (\<lambda>md xs. Inr (map (\<lambda>x. md - x) xs)),
      sample = (\<lambda>n seed len. [0..<n])\<rparr>"

text \<open>A trained service, an untrained one, and a default dataset of three readings.\<close>

definition trained :: "(rat, rat) state" where
  "trained = \<lparr>model = Some 5, scaler = Some 0\<rparr>"

definition untrained :: "(rat, rat) state" where
  "untrained = \<lparr>model = None, scaler = None\<rparr>"

definition header_line :: string where
  "header_line = ''Date;Time;Global_active_power;Global_reactive_power;Voltage;Global_intensity;Sub_metering_1;Sub_metering_2;Sub_metering_3''"

definition three_readings :: string where
  "three_readings = header_line @ [CHR 0x0A]
     @ ''16/12/2006;17:24:00;4;0;234;18;0;1;17'' @ [CHR 0x0A]
     @ ''16/12/2006;17:25:00;?;0;233;23;0;1;16'' @ [CHR 0x0A]
     @ ''16/12/2006;17:26:00;9;0;233;23;0;2;17'' @ [CHR 0x0A]"

definition no_files :: "(rat, rat) files" where
  "no_files = \<lparr>DEFAULT_DATA_FILE = None, DEFAULT_MODEL_FILE = None, DEFAULT_SCALER_FILE = None,
     MODEL_PATH_model = None, MODEL_PATH_scaler = None\<rparr>"

definition default_files :: "(rat, rat) files" where
  "default_files = no_files\<lparr>DEFAULT_DATA_FILE := Some three_readings\<rparr>"

text \<open>
  What the trained service answers for the default dataset: the reading with the missing
  value is dropped, one of the two others exceeds the threshold.
\<close>

definition one_anomaly_response :: PredictionResponse where
  "one_anomaly_response =
     \<lparr>anomalies =
        [\<lparr>datetime = Some ''20061216172600'', global_active_power = Num 9,
          global_reactive_power = Num 0, voltage = Num 233, global_intensity = Num 23,
          sub_metering_1 = Num 0, sub_metering_2 = Num 2, sub_metering_3 = Num 17,
          anomaly_score = Num (- 4)\<rparr>],
      anomaly_count = 1, total_records = 2, anomaly_percentage = 50\<rparr>"

text \<open>Two uploads with a client-side fault: a wrong extension, and a table of two columns.\<close>

definition json_upload :: upload where
  "json_upload = \<lparr>filename = ''data.json'', contents = Some three_readings\<rparr>"

definition two_column_upload :: upload where
  "two_column_upload =
     \<lparr>filename = ''data.csv'',
      contents = Some (''Voltage,Global_intensity'' @ [CHR 0x0A] @ ''233,23'' @ [CHR 0x0A])\<rparr>"

text \<open>
  The files of a service whose primary scaler pickle cannot be read, and of one whose
  primary scaler pickle holds a scaler fitted earlier.
\<close>

definition corrupt_scaler_files :: "(rat, rat) files" where
  "corrupt_scaler_files = default_files\<lparr>DEFAULT_SCALER_FILE := Some Corrupt\<rparr>"

definition stale_scaler_files :: "(rat, rat) files" where
  "stale_scaler_files = default_files\<lparr>DEFAULT_SCALER_FILE := Some (Pickled 1)\<rparr>"

text \<open>The header and the rows the tokenizer finds in the three readings.\<close>

definition three_readings_header :: "string list" where
  "three_readings_header = [''Date'', ''Time'', ''Global_active_power'',
     ''Global_reactive_power'', ''Voltage'', ''Global_intensity'', ''Sub_metering_1'',
     ''Sub_metering_2'', ''Sub_metering_3'']"

definition three_readings_rows :: "string list list" where
  "three_readings_rows =
     [[''16/12/2006'', ''17:24:00'', ''4'', ''0'', ''234'', ''18'', ''0'', ''1'', ''17''],
      [''16/12/2006'', ''17:25:00'', ''?'', ''0'', ''233'', ''23'', ''0'', ''1'', ''16''],
      [''16/12/2006'', ''17:26:00'', ''9'', ''0'', ''233'', ''23'', ''0'', ''2'', ''17'']]"

text \<open>
  A default dataset of \<open>n\<close> equal readings without date and time, each above the
  threshold of the detector; the frame it loads as, the frame after detection, the entry
  of one reading, and the response of /anomalies for 1001 such readings.
\<close>

definition feature_header :: string where
  "feature_header = ''Global_active_power;Global_reactive_power;Voltage;Global_intensity;Sub_metering_1;Sub_metering_2;Sub_metering_3''"

definition high_reading :: string where
  "high_reading = ''9;0;233;23;0;2;17''"

definition many_readings :: "nat \<Rightarrow> string" where
  "many_readings n = feature_header @ [CHR 0x0A] @ concat (replicate n (high_reading @ [CHR 0x0A]))"

definition many_files :: "nat \<Rightarrow> (rat, rat) files" where
  "many_files n = no_files\<lparr>DEFAULT_DATA_FILE := Some (many_readings n)\<rparr>"

definition high_entry :: anomaly_data where
  "high_entry =
     \<lparr>datetime = None, global_active_power = Num 9, global_reactive_power = Num 0,
      voltage = Num 233, global_intensity = Num 23, sub_metering_1 = Num 0,
      sub_metering_2 = Num 2, sub_metering_3 = Num 17, anomaly_score = Num (- 4)\<rparr>"

definition high_row :: "string \<Rightarrow> cell" where
  "high_row c =
     (case map_of (zip features [Num 9, Num 0, Num 233, Num 23, Num 0, Num 2, Num 17]) c of
        None \<Rightarrow> NaN | Some v \<Rightarrow> v)"

definition flagged_row :: "string \<Rightarrow> cell" where
  "flagged_row = high_row(''anomaly'' := Num 1, ''anomaly_score'' := Num (- 4))"

definition many_frame :: "nat \<Rightarrow> frame" where
  "many_frame n = \<lparr>columns = features, rows = map (\<lambda>i. (i, high_row)) [0..<n]\<rparr>"

definition many_flagged :: "nat \<Rightarrow> frame" where
  "many_flagged n =
     \<lparr>columns = features @ [''anomaly'', ''anomaly_score''],
      rows = map (\<lambda>i. (i, flagged_row)) [0..<n]\<rparr>"

definition capped_response :: PredictionResponse where
  "capped_response =
     \<lparr>anomalies = replicate 1000 high_entry, anomaly_count = 1000, total_records = 1001,
      anomaly_percentage = 1000 / 1001 * 100\<rparr>"

section \<open>Sequencing and handlers\<close>

lemma bindE_Inl [simp]: "bindE (Inl e) f = Inl e"
  by (simp add: bindE_def)

lemma bindE_Inr [simp]: "bindE (Inr v) f = f v"
  by (simp add: bindE_def)

lemma bindE_eq_Inr: "bindE m f = Inr r \<longleftrightarrow> (\<exists>v. m = Inr v \<and> f v = Inr r)"
  by (cases m) simp_all

lemma except_Exception_eq_Inr [simp]: "except_Exception L p m = Inr r \<longleftrightarrow> m = Inr r"
  by (cases m) (simp_all add: except_Exception_def)

lemma except_HTTPException_raise_eq_Inr [simp]:
  "except_HTTPException_raise L p m = Inr r \<longleftrightarrow> m = Inr r"
  by (cases m) (simp_all add: except_HTTPException_raise_def split: exn.splits)

lemma mapE_length: "mapE f xs = Inr ys \<Longrightarrow> length ys = length xs"
  by (induction xs arbitrary: ys) (auto simp: bindE_eq_Inr)

section \<open>Prediction before training\<close>

text \<open>
  Claim C5. A POST to /predict while the process holds no model or no scaler is answered
  with status 500, whatever file is sent: the check of lines 110-112 comes before the
  request is looked at.
\<close>

theorem predict_before_training:
  "model st = None \<or> scaler st = None \<Longrightarrow>
   predict_anomalies L st fs file =
     Inl (HTTPException 500 ''Model not trained yet. Please upload a training dataset first.'')"
  by (auto simp: predict_anomalies_def split: option.splits)

theorem predict_before_training_witness:
  "(model untrained = None \<or> scaler untrained = None) \<and>
   status (predict_anomalies demo_lib untrained default_files None) = 500"
  using predict_before_training [of untrained demo_lib default_files None]
  by (simp add: untrained_def)

section \<open>A feature filter that names no feature\<close>

text \<open>
  Claim C10. A GET to /anomalies whose \<open>feature_filter\<close> is not one of the seven feature
  names gives the same globals and the same response (body or error) as the request
  without the parameter: line 349 skips the sort and nothing else reads the parameter.
\<close>

theorem feature_filter_ignored:
  "ff \<notin> set features \<Longrightarrow>
   get_anomalies L st fs start_date end_date (Some ff) =
   get_anomalies L st fs start_date end_date None"
  by (simp add: get_anomalies_def truthy_def Let_def cong: if_cong option.case_cong)

theorem feature_filter_ignored_witness:
  "''Power'' \<notin> set features \<and>
   get_anomalies demo_lib trained default_files None None (Some ''Power'') =
   get_anomalies demo_lib trained default_files None None None"
  using feature_filter_ignored [of "''Power''" demo_lib trained default_files None None]
  by (simp add: features_def)

section \<open>The body of a successful response\<close>

lemma predict_shape:
  "predict_anomalies L st fs file = Inr r \<Longrightarrow> \<exists>anoms df. r = make_response anoms df"
  by (auto simp: predict_anomalies_def bindE_eq_Inr split: option.splits)

lemma analyze_shape:
  "snd (analyze_default_dataset L st fs n) = Inr r \<Longrightarrow> \<exists>anoms df. r = make_response anoms df"
  by (auto simp: analyze_default_dataset_def Let_def bindE_eq_Inr split: option.splits)

lemma get_anomalies_shape:
  "snd (get_anomalies L st fs sd ed ff) = Inr r \<Longrightarrow>
   r = empty_response \<or> (\<exists>anoms df. r = make_response anoms df)"
  by (auto simp: get_anomalies_def Let_def bindE_eq_Inr split: option.splits if_splits)

text \<open>Two runs of the small instance.\<close>

lemma predict_default_run:
  "predict_anomalies demo_lib trained default_files None = Inr one_anomaly_response"
  by code_simp

lemma late_start_run:
  "snd (get_anomalies demo_lib trained default_files (Some ''2030-01-01'') None None) =
     Inr empty_response"
  by code_simp

text \<open>
  Claim C4. In every successful response of /predict, /anomalies and
  /analyze-default-data, \<open>anomaly_percentage\<close> is \<open>anomaly_count / total_records * 100\<close>
  when \<open>total_records\<close> is positive and 0 when it is 0 (over the rationals: the rounding
  of the float division is not modelled).
\<close>

theorem percentage_formula:
  "predict_anomalies L st fs file = Inr r \<or>
   snd (get_anomalies L st fs start_date end_date feature_filter) = Inr r \<or>
   snd (analyze_default_dataset L st fs sample_size) = Inr r \<Longrightarrow>
   anomaly_percentage r =
     (if total_records r > 0 then of_nat (anomaly_count r) / of_nat (total_records r) * 100
      else 0)"
  by (auto dest!: predict_shape analyze_shape get_anomalies_shape
       simp: make_response_def empty_response_def Let_def)

theorem percentage_formula_witness:
  "predict_anomalies demo_lib trained default_files None = Inr one_anomaly_response \<and>
   anomaly_percentage one_anomaly_response = 1 / 2 * 100 \<and>
   snd (get_anomalies demo_lib trained default_files (Some ''2030-01-01'') None None) =
     Inr empty_response \<and>
   anomaly_percentage empty_response = 0"
  using percentage_formula [of demo_lib trained default_files None one_anomaly_response
      None None None None, OF disjI1, OF predict_default_run]
    percentage_formula [of demo_lib trained default_files None empty_response
      "Some ''2030-01-01''" None None None, OF disjI2, OF disjI1, OF late_start_run]
    predict_default_run late_start_run
  by (simp add: empty_response_def one_anomaly_response_def)

section \<open>Client faults on /predict and /train\<close>

lemma status_except_Exception_Inl [simp]: "status (except_Exception L p (Inl e)) = 500"
  by (simp add: except_Exception_def)

lemma load_upload_bad_extension:
  "contents f = Some text \<Longrightarrow> \<not> endswith (filename f) ''.csv'' \<Longrightarrow>
   \<not> endswith (filename f) ''.txt'' \<Longrightarrow>
   load_upload L f =
     Inl (HTTPException 400 ''Unsupported file format. Please upload a .csv or .txt file'')"
  by (simp add: load_upload_def)

lemma two_column_frame:
  "case request_frame demo_lib default_files (Some two_column_upload) of
     Inl e \<Rightarrow> False
   | Inr df \<Rightarrow> missing_features df = [''Global_active_power'', ''Global_reactive_power'',
       ''Sub_metering_1'', ''Sub_metering_2'', ''Sub_metering_3'']"
  by code_simp

text \<open>
  The 400 that line 153 raises travels inside the detail of the 500 that line 199 raises
  in its place.
\<close>

lemma predict_two_columns_run:
  "predict_anomalies demo_lib trained default_files (Some two_column_upload) =
   Inl (HTTPException 500 (''Error processing file: 400: Missing required features: ''
     @ ''['' @ [CHR 0x27] @ ''Global_active_power'' @ [CHR 0x27] @ '', ''
     @ [CHR 0x27] @ ''Global_reactive_power'' @ [CHR 0x27] @ '', ''
     @ [CHR 0x27] @ ''Sub_metering_1'' @ [CHR 0x27] @ '', ''
     @ [CHR 0x27] @ ''Sub_metering_2'' @ [CHR 0x27] @ '', ''
     @ [CHR 0x27] @ ''Sub_metering_3'' @ [CHR 0x27] @ '']''))"
  by code_simp

text \<open>
  Claim C1 says that a POST to /predict or /train with a client-side fault (a file name
  that ends in neither .csv nor .txt, or a parsed table that lacks a feature column) is
  answered with a 4xx status. The code raises the 400 inside the \<open>try\<close> block whose
  handler \<open>except Exception\<close> (lines 198-199, 273-274) catches it and raises a 500:
  with a model and a scaler in memory, every such request is answered with status 500.
  \<open>get_anomalies\<close> re-raises an \<open>HTTPException\<close> before that handler (lines 389-390).
\<close>

theorem client_fault_answered_500:
  assumes "model st = Some md" and "scaler st = Some sc"
    and "(\<exists>f text. file = Some f \<and> contents f = Some text \<and>
            \<not> endswith (filename f) ''.csv'' \<and> \<not> endswith (filename f) ''.txt'') \<or>
         (\<exists>df. request_frame L fs file = Inr df \<and> missing_features df \<noteq> [])"
  shows "status (predict_anomalies L st fs file) = 500 \<and>
         status (snd (snd (train_model L st fs file))) = 500"
  using assms
  by (auto simp: predict_anomalies_def train_model_def request_frame_def check_features_def
      load_upload_bad_extension)

theorem client_fault_answered_500_witness:
  "status (predict_anomalies demo_lib trained default_files (Some json_upload)) = 500 \<and>
   status (snd (snd (train_model demo_lib trained default_files (Some json_upload)))) = 500 \<and>
   status (predict_anomalies demo_lib trained default_files (Some two_column_upload)) = 500 \<and>
   status (snd (snd (train_model demo_lib trained default_files (Some two_column_upload)))) = 500"
proof -
  have m: "model trained = Some 5" "scaler trained = Some 0"
    by (simp_all add: trained_def)
  have a: "\<exists>f text. Some json_upload = Some f \<and> contents f = Some text \<and>
            \<not> endswith (filename f) ''.csv'' \<and> \<not> endswith (filename f) ''.txt''"
    by (simp add: json_upload_def endswith_def)
  have b: "\<exists>df. request_frame demo_lib default_files (Some two_column_upload) = Inr df \<and>
            missing_features df \<noteq> []"
    using two_column_frame by (auto split: sum.splits)
  show ?thesis
    using client_fault_answered_500 [OF m disjI1, OF a, of demo_lib default_files]
      client_fault_answered_500 [OF m disjI2, OF b]
    by simp
qed

section \<open>The scaler of a training run\<close>

lemma scaler_after_training:
  "bindE (request_frame L fs file) check_features = Inr df \<Longrightarrow>
   scaler (fst (train_model L st fs file)) =
     Some (fst (scale_for_training L fs (feature_matrix df)))"
  by (simp add: train_model_def Let_def split: prod.splits sum.splits)

text \<open>
  Claim C3 says that training loads and reuses the primary scaler file whenever the file
  exists. It fails when the file exists and cannot be read: the handler of lines 256-259
  fits a new scaler. Here the pickle is corrupt, training succeeds, and the scaler in
  memory and on disk afterwards is the one fitted on the training data (offset 4, the
  first reading), not one that was loaded.
\<close>

theorem scaler_file_corrupt_counterexample:
  "DEFAULT_SCALER_FILE corrupt_scaler_files = Some Corrupt \<and>
   train_model demo_lib untrained corrupt_scaler_files None =
     (\<lparr>model = Some 5, scaler = Some 4\<rparr>, dump_artifacts 5 4 corrupt_scaler_files,
      Inr ''Model trained and saved successfully'')"
  by code_simp

text \<open>
  Claim C3, amended. In a training run that reaches the scaling step with the feature
  matrix \<open>X\<close>: if the primary scaler file exists, \<open>joblib.load\<close> reads it and
  \<open>transform\<close> accepts \<open>X\<close>, the loaded scaler is the scaler of the run, unchanged,
  and \<open>X\<close> is scaled by it; if the file does not exist, or cannot be read, or
  \<open>transform\<close> raises, a new scaler is fitted on \<open>X\<close>.
\<close>

theorem scaler_reused_or_fit:
  assumes "bindE (request_frame L fs file) check_features = Inr df"
  shows "(\<forall>sc X_scaled.
            DEFAULT_SCALER_FILE fs = Some (Pickled sc) \<and>
            transform L sc (feature_matrix df) = Inr X_scaled \<longrightarrow>
            scale_for_training L fs (feature_matrix df) = (sc, Inr X_scaled) \<and>
            scaler (fst (train_model L st fs file)) = Some sc) \<and>
         (DEFAULT_SCALER_FILE fs = None \<or> DEFAULT_SCALER_FILE fs = Some Corrupt \<or>
          (\<exists>sc msg. DEFAULT_SCALER_FILE fs = Some (Pickled sc) \<and>
             transform L sc (feature_matrix df) = Inl msg) \<longrightarrow>
            scale_for_training L fs (feature_matrix df) = fit_new_scaler L (feature_matrix df) \<and>
            scaler (fst (train_model L st fs file)) =
              Some (fst (fit_new_scaler L (feature_matrix df))))"
proof -
  have reuse: "scale_for_training L fs (feature_matrix df) = (sc, Inr X_scaled)"
    if "DEFAULT_SCALER_FILE fs = Some (Pickled sc)"
      and "transform L sc (feature_matrix df) = Inr X_scaled" for sc X_scaled
    using that by (simp add: scale_for_training_def joblib_load_def)
  have refit: "scale_for_training L fs (feature_matrix df) = fit_new_scaler L (feature_matrix df)"
    if "DEFAULT_SCALER_FILE fs = None \<or> DEFAULT_SCALER_FILE fs = Some Corrupt \<or>
          (\<exists>sc msg. DEFAULT_SCALER_FILE fs = Some (Pickled sc) \<and>
             transform L sc (feature_matrix df) = Inl msg)"
    using that
    by (auto simp: scale_for_training_def joblib_load_def fit_new_scaler_def split: sum.splits)
  show ?thesis
    using reuse refit scaler_after_training [OF assms, of st] by auto
qed

theorem scaler_reused_or_fit_witness:
  "scaler (fst (train_model demo_lib untrained stale_scaler_files None)) = Some 1 \<and>
   scaler (fst (train_model demo_lib untrained corrupt_scaler_files None)) = Some 4"
proof -
  let ?a = "bindE (request_frame demo_lib stale_scaler_files None) check_features"
  let ?b = "bindE (request_frame demo_lib corrupt_scaler_files None) check_features"
  have "\<not> isl ?a" and "\<not> isl ?b"
    by code_simp+
  then have a: "?a = Inr (projr ?a)" and b: "?b = Inr (projr ?b)"
    by simp_all
  have fa: "DEFAULT_SCALER_FILE stale_scaler_files = Some (Pickled 1)"
    and ta: "transform demo_lib 1 (feature_matrix (projr ?a)) = Inr [3, 8]"
    by code_simp+
  have fb: "DEFAULT_SCALER_FILE corrupt_scaler_files = Some Corrupt"
    and tb: "fst (fit_new_scaler demo_lib (feature_matrix (projr ?b))) = 4"
    by code_simp+
  show ?thesis
    using scaler_reused_or_fit [OF a, of untrained] scaler_reused_or_fit [OF b, of untrained]
      fa ta fb tb
    by simp
qed

section \<open>What the loader keeps\<close>

lemma in_indexed: "(i, r) \<in> set (zip [0..<length xs] (map f xs)) \<longleftrightarrow> i < length xs \<and> r = f (xs ! i)"
  by (force simp: in_set_zip)

lemma read_csv_Inr:
  "read_csv L sep na text = Inr df \<Longrightarrow> tokenize L sep text = Inr (hdr, raws) \<Longrightarrow>
   df = \<lparr>columns = hdr, rows = zip [0..<length raws] (map (read_row na hdr) raws)\<rparr>"
  by (simp add: read_csv_def call_def)

lemma read_csv_Inr_tokenize:
  "read_csv L sep na text = Inr df \<Longrightarrow> \<exists>hdr raws. tokenize L sep text = Inr (hdr, raws)"
  by (auto simp: read_csv_def call_def split: sum.splits)

lemma coerce_cases: "coerce L c = NaN \<or> (\<exists>x. coerce L c = Num x)"
  by (cases c) (auto split: option.splits)

lemma coerce_idem [simp]: "coerce L (coerce L c) = coerce L c"
  by (cases c) (auto split: option.splits)

lemma columns_to_numeric_columns [simp]: "columns (to_numeric_columns L cs df) = columns df"
  by (induction cs arbitrary: df) auto

lemma rows_to_numeric_columns:
  "rows (to_numeric_columns L cs df) =
   map (\<lambda>(i, r). (i, \<lambda>c. if c \<in> set cs \<and> c \<noteq> ''Datetime'' then coerce L (r c) else r c))
     (rows df)"
proof (induction cs arbitrary: df)
  case Nil
  then show ?case by (simp add: split_def)
next
  case (Cons col cs)
  show ?case
    by (auto simp: Cons split_def fun_eq_iff)
qed

lemma columns_dropna [simp]: "columns (dropna df) = columns df"
  by (simp add: dropna_def)

lemma in_rows_dropna:
  "(i, r) \<in> set (rows (dropna df)) \<longleftrightarrow>
   (i, r) \<in> set (rows df) \<and> (\<forall>c \<in> set (columns df). r c \<noteq> NaN)"
  by (auto simp: dropna_def list_all_iff)

lemma handle_date_time_rows:
  "handle_date_time L df = Inr df1 \<Longrightarrow>
   rows df1 =
     (if ''Date'' \<in> set (columns df) \<and> ''Time'' \<in> set (columns df)
      then map (\<lambda>(i, r). (i, r(''Datetime'' := merge_cell L (r ''Date'') (r ''Time'')))) (rows df)
      else rows df)"
  by (auto simp: handle_date_time_def split: if_splits)

lemma handle_date_time_columns:
  "handle_date_time L df = Inr df1 \<Longrightarrow>
   columns df1 =
     (if ''Date'' \<in> set (columns df) \<and> ''Time'' \<in> set (columns df)
      then filter (\<lambda>c. c \<noteq> ''Date'' \<and> c \<noteq> ''Time'')
             (if ''Datetime'' \<in> set (columns df) then columns df else columns df @ [''Datetime''])
      else columns df)"
  by (auto simp: handle_date_time_def split: if_splits)

text \<open>What a row of the loaded frame is, in terms of the row that was read.\<close>

lemma preprocess_row:
  assumes "preprocess L df = Inr df'" and "(i, r') \<in> set (rows df')"
  shows "\<exists>r. (i, r) \<in> set (rows df) \<and>
           (\<forall>c \<in> set (columns df'). r' c \<noteq> NaN) \<and>
           (\<forall>c. c \<noteq> ''Datetime'' \<longrightarrow> c \<in> set (columns df') \<longrightarrow> r' c = coerce L (r c)) \<and>
           r' ''Datetime'' =
             (if ''Date'' \<in> set (columns df) \<and> ''Time'' \<in> set (columns df)
              then merge_cell L (r ''Date'') (r ''Time'') else r ''Datetime'')"
proof -
  from assms(1) obtain df1 where h: "handle_date_time L df = Inr df1"
    and df': "df' = dropna (to_numeric_columns L (columns df1) df1)"
    by (auto simp: preprocess_def split: sum.splits)
  have cols: "columns df' = columns df1"
    by (simp add: df')
  from assms(2) have nn: "\<forall>c \<in> set (columns df1). r' c \<noteq> NaN"
    and mem: "(i, r') \<in> set (rows (to_numeric_columns L (columns df1) df1))"
    by (simp_all add: df' in_rows_dropna)
  from mem obtain r1 where r1: "(i, r1) \<in> set (rows df1)"
    and r': "r' = (\<lambda>c. if c \<in> set (columns df1) \<and> c \<noteq> ''Datetime'' then coerce L (r1 c) else r1 c)"
    by (auto simp: rows_to_numeric_columns)
  show ?thesis
  proof (cases "''Date'' \<in> set (columns df) \<and> ''Time'' \<in> set (columns df)")
    case True
    with r1 handle_date_time_rows [OF h] obtain r where r: "(i, r) \<in> set (rows df)"
      and r1': "r1 = r(''Datetime'' := merge_cell L (r ''Date'') (r ''Time''))"
      by auto
    show ?thesis
      using r nn True by (intro exI [of _ r]) (auto simp: cols r' r1')
  next
    case False
    with r1 handle_date_time_rows [OF h] have "(i, r1) \<in> set (rows df)"
      by auto
    then show ?thesis
      using nn False by (intro exI [of _ r1]) (auto simp: cols r')
  qed
qed

lemma read_cell_Str: "read_cell na v = Str s \<Longrightarrow> v = Some s"
  by (auto simp: read_cell_def split: option.splits if_splits)

lemma coerce_read_question:
  "to_number L ''?'' = None \<Longrightarrow> coerce L (read_cell na (Some ''?'')) = NaN"
  by (simp add: read_cell_def)

lemma merge_cell_not_NaN:
  "merge_cell L a b \<noteq> NaN \<Longrightarrow>
   \<exists>d t ts. a = Str d \<and> b = Str t \<and>
     to_datetime L (Some ''%d/%m/%Y %H:%M:%S'') (d @ '' '' @ t) = Some ts \<and>
     merge_cell L a b = Ts ts"
  by (auto simp: merge_cell_def datetime_format_def split: cell.splits option.splits)

lemma field_in_header: "field hdr vals c = Some v \<Longrightarrow> c \<in> set hdr"
  by (auto simp: field_def dest!: map_of_SomeD set_zip_leftD)

lemma preprocess_columns:
  "preprocess L df = Inr df' \<Longrightarrow>
   columns df' =
     (if ''Date'' \<in> set (columns df) \<and> ''Time'' \<in> set (columns df)
      then filter (\<lambda>c. c \<noteq> ''Date'' \<and> c \<noteq> ''Time'')
             (if ''Datetime'' \<in> set (columns df) then columns df else columns df @ [''Datetime''])
      else columns df)"
  by (auto simp: preprocess_def handle_date_time_columns split: sum.splits)

lemma feature_names:
  "f \<in> set features \<Longrightarrow> f \<noteq> ''Date'' \<and> f \<noteq> ''Time'' \<and> f \<noteq> ''Datetime''"
  by (auto simp: features_def)

text \<open>The three ways into the loader end in \<open>read_csv\<close> followed by the three steps.\<close>

lemma loaded_cases:
  assumes "(load_default_dataset L fs = Some df \<and> DEFAULT_DATA_FILE fs = Some text \<and>
              sep = CHR '';'') \<or>
           (load_upload L file = Inr df \<and> contents file = Some text \<and>
              endswith (filename file) ''.csv'' \<and> sep = CHR '','') \<or>
           (load_upload L file = Inr df \<and> contents file = Some text \<and>
              \<not> endswith (filename file) ''.csv'' \<and> sep = CHR '';'')"
  shows "\<exists>na df0. read_csv L sep na text = Inr df0 \<and> preprocess L df0 = Inr df"
  using assms
  by (auto simp: load_default_dataset_def load_upload_def split: sum.splits if_splits) blast+

lemma loaded_row:
  assumes "read_csv L sep na text = Inr df0" and "preprocess L df0 = Inr df"
    and "tokenize L sep text = Inr (hdr, raws)" and "(i, r') \<in> set (rows df)"
  shows "i < length raws \<and>
         (\<forall>c \<in> set (columns df). r' c \<noteq> NaN) \<and>
         (\<forall>c. c \<noteq> ''Datetime'' \<longrightarrow> c \<in> set (columns df) \<longrightarrow>
            r' c = coerce L (read_cell na (field hdr (raws ! i) c))) \<and>
         r' ''Datetime'' =
           (if ''Date'' \<in> set hdr \<and> ''Time'' \<in> set hdr
            then merge_cell L (read_cell na (field hdr (raws ! i) ''Date''))
                   (read_cell na (field hdr (raws ! i) ''Time''))
            else read_cell na (field hdr (raws ! i) ''Datetime''))"
proof -
  have df0: "df0 = \<lparr>columns = hdr, rows = zip [0..<length raws] (map (read_row na hdr) raws)\<rparr>"
    using assms(1,3) by (rule read_csv_Inr)
  from preprocess_row [OF assms(2,4)] obtain r where
    r: "(i, r) \<in> set (rows df0)" and
    rest: "\<forall>c \<in> set (columns df). r' c \<noteq> NaN"
      "\<forall>c. c \<noteq> ''Datetime'' \<longrightarrow> c \<in> set (columns df) \<longrightarrow> r' c = coerce L (r c)"
      "r' ''Datetime'' =
         (if ''Date'' \<in> set (columns df0) \<and> ''Time'' \<in> set (columns df0)
          then merge_cell L (r ''Date'') (r ''Time'') else r ''Datetime'')"
    by blast
  from r have i: "i < length raws" and r_def: "r = read_row na hdr (raws ! i)"
    by (simp_all add: df0 in_indexed)
  show ?thesis
    using i rest by (simp add: r_def read_row_def df0)
qed

text \<open>
  Claim C6. Let a frame be loaded from a text by any of the three ways: the default
  dataset, an uploaded .csv file, an uploaded .txt file. Provided the library does not
  read the text \<open>?\<close> as a number: a row of the text whose field in a feature column is
  \<open>?\<close> is not a row of the frame, and in every row of the frame every feature column
  of the frame holds a number.
\<close>

theorem question_mark_rows_dropped:
  assumes "(load_default_dataset L fs = Some df \<and> DEFAULT_DATA_FILE fs = Some text \<and>
              sep = CHR '';'') \<or>
           (load_upload L file = Inr df \<and> contents file = Some text \<and>
              endswith (filename file) ''.csv'' \<and> sep = CHR '','') \<or>
           (load_upload L file = Inr df \<and> contents file = Some text \<and>
              \<not> endswith (filename file) ''.csv'' \<and> sep = CHR '';'')"
    and "tokenize L sep text = Inr (hdr, raws)"
    and "to_number L ''?'' = None"
  shows "(\<forall>i < length raws. (\<exists>f \<in> set features. field hdr (raws ! i) f = Some ''?'') \<longrightarrow>
            i \<notin> fst ` set (rows df)) \<and>
         (\<forall>(i, r) \<in> set (rows df). \<forall>f \<in> set features.
            f \<in> set (columns df) \<longrightarrow> (\<exists>x. r f = Num x))"
proof -
  from loaded_cases [OF assms(1)] obtain na df0 where
    rd: "read_csv L sep na text = Inr df0" and pp: "preprocess L df0 = Inr df"
    by blast
  have df0: "columns df0 = hdr"
    using read_csv_Inr [OF rd assms(2)] by simp
  have cols: "f \<in> set (columns df) \<longleftrightarrow> f \<in> set hdr" if "f \<in> set features" for f
    using feature_names [OF that] by (auto simp: preprocess_columns [OF pp] df0)
  have dropped: "i \<notin> fst ` set (rows df)"
    if "f \<in> set features" and q: "field hdr (raws ! i) f = Some ''?''" for i f
  proof
    assume "i \<in> fst ` set (rows df)"
    then obtain r where r: "(i, r) \<in> set (rows df)"
      by auto
    have f: "f \<in> set (columns df)" "f \<noteq> ''Datetime''"
      using that cols [of f] feature_names [of f] field_in_header [OF q] by simp_all
    from loaded_row [OF rd pp assms(2) r] f
    have "r f \<noteq> NaN" and "r f = coerce L (read_cell na (field hdr (raws ! i) f))"
      by blast+
    then show False
      by (simp add: q coerce_read_question [OF assms(3)])
  qed
  have numeric: "\<exists>x. r f = Num x"
    if "(i, r) \<in> set (rows df)" and "f \<in> set features" and "f \<in> set (columns df)" for i r f
  proof -
    have "f \<noteq> ''Datetime''"
      using feature_names [OF that(2)] by simp
    with loaded_row [OF rd pp assms(2) that(1)] that(3)
    have "r f \<noteq> NaN" and "r f = coerce L (read_cell na (field hdr (raws ! i) f))"
      by blast+
    then show ?thesis
      using coerce_cases [of L "read_cell na (field hdr (raws ! i) f)"] by auto
  qed
  show ?thesis
    using dropped numeric by blast
qed

text \<open>
  Claim C7. Let a frame be loaded, by any of the three ways, from a text whose header has a
  \<open>Date\<close> and a \<open>Time\<close> column. The frame has a \<open>Datetime\<close> column and neither a
  \<open>Date\<close> nor a \<open>Time\<close> column (and no column twice when the header has none
  twice), and the \<open>Datetime\<close> of every row is the timestamp that the date, a space
  and the time of that row denote in the format \<open>%d/%m/%Y %H:%M:%S\<close>.
\<close>

theorem date_time_merged:
  assumes "(load_default_dataset L fs = Some df \<and> DEFAULT_DATA_FILE fs = Some text \<and>
              sep = CHR '';'') \<or>
           (load_upload L file = Inr df \<and> contents file = Some text \<and>
              endswith (filename file) ''.csv'' \<and> sep = CHR '','') \<or>
           (load_upload L file = Inr df \<and> contents file = Some text \<and>
              \<not> endswith (filename file) ''.csv'' \<and> sep = CHR '';'')"
    and "tokenize L sep text = Inr (hdr, raws)"
    and "''Date'' \<in> set hdr" and "''Time'' \<in> set hdr"
  shows "''Datetime'' \<in> set (columns df) \<and> ''Date'' \<notin> set (columns df) \<and>
         ''Time'' \<notin> set (columns df) \<and>
         (distinct hdr \<longrightarrow> distinct (columns df)) \<and>
         (\<forall>(i, r) \<in> set (rows df). \<exists>d t ts.
            field hdr (raws ! i) ''Date'' = Some d \<and> field hdr (raws ! i) ''Time'' = Some t \<and>
            to_datetime L (Some ''%d/%m/%Y %H:%M:%S'') (d @ '' '' @ t) = Some ts \<and>
            r ''Datetime'' = Ts ts)"
proof -
  from loaded_cases [OF assms(1)] obtain na df0 where
    rd: "read_csv L sep na text = Inr df0" and pp: "preprocess L df0 = Inr df"
    by blast
  have df0: "columns df0 = hdr"
    using read_csv_Inr [OF rd assms(2)] by simp
  have cols: "columns df = filter (\<lambda>c. c \<noteq> ''Date'' \<and> c \<noteq> ''Time'')
      (if ''Datetime'' \<in> set hdr then hdr else hdr @ [''Datetime''])"
    using assms(3,4) by (simp add: preprocess_columns [OF pp] df0)
  have c1: "''Datetime'' \<in> set (columns df)" "''Date'' \<notin> set (columns df)"
    "''Time'' \<notin> set (columns df)"
    by (auto simp: cols)
  have c2: "distinct (columns df)" if "distinct hdr"
    using that by (auto simp: cols)
  have rows: "\<exists>d t ts.
      field hdr (raws ! i) ''Date'' = Some d \<and> field hdr (raws ! i) ''Time'' = Some t \<and>
      to_datetime L (Some ''%d/%m/%Y %H:%M:%S'') (d @ '' '' @ t) = Some ts \<and>
      r ''Datetime'' = Ts ts"
    if "(i, r) \<in> set (rows df)" for i r
  proof -
    let ?d = "read_cell na (field hdr (raws ! i) ''Date'')"
    let ?t = "read_cell na (field hdr (raws ! i) ''Time'')"
    from loaded_row [OF rd pp assms(2) that] assms(3,4)
    have nn: "\<forall>c \<in> set (columns df). r c \<noteq> NaN"
      and eq: "r ''Datetime'' = merge_cell L ?d ?t"
      by simp_all
    from nn c1(1) have "r ''Datetime'' \<noteq> NaN"
      by blast
    then have "merge_cell L ?d ?t \<noteq> NaN"
      by (simp add: eq)
    from merge_cell_not_NaN [OF this] obtain d t ts where
      "?d = Str d" "?t = Str t"
      "to_datetime L (Some ''%d/%m/%Y %H:%M:%S'') (d @ '' '' @ t) = Some ts"
      "merge_cell L ?d ?t = Ts ts"
      by blast
    then show ?thesis
      using eq by (auto dest: read_cell_Str)
  qed
  show ?thesis
    using c1 c2 rows by blast
qed

text \<open>The three readings, loaded as the default dataset.\<close>

lemma three_readings_tokens:
  "tokenize demo_lib (CHR '';'') three_readings = Inr (three_readings_header, three_readings_rows)"
  by code_simp

lemma three_readings_loaded:
  "load_default_dataset demo_lib default_files =
     Some (the (load_default_dataset demo_lib default_files))"
proof -
  have "load_default_dataset demo_lib default_files \<noteq> None"
    by code_simp
  then show ?thesis
    by simp
qed

theorem question_mark_rows_dropped_witness:
  "field three_readings_header (three_readings_rows ! 1) ''Global_active_power'' = Some ''?'' \<and>
   1 \<notin> fst ` set (rows (the (load_default_dataset demo_lib default_files))) \<and>
   series ''Global_active_power'' (the (load_default_dataset demo_lib default_files)) =
     [(0, Num 4), (2, Num 9)]"
proof -
  have src: "DEFAULT_DATA_FILE default_files = Some three_readings"
    by (simp add: default_files_def no_files_def)
  have q: "to_number demo_lib ''?'' = None"
    by code_simp
  have f: "field three_readings_header (three_readings_rows ! 1) ''Global_active_power'' = Some ''?''"
    by code_simp
  have v: "''Voltage'' \<in> set features" "''Global_active_power'' \<in> set features"
    by (simp_all add: features_def)
  have c: "series ''Global_active_power'' (the (load_default_dataset demo_lib default_files)) =
      [(0, Num 4), (2, Num 9)]"
    by code_simp
  have n: "(1::nat) < length three_readings_rows"
    by (simp add: three_readings_rows_def)
  note inst = question_mark_rows_dropped [of demo_lib default_files _ three_readings "CHR '';''",
      OF disjI1 three_readings_tokens q, OF conjI, OF three_readings_loaded conjI, OF src refl]
  show ?thesis
    using inst f v c n by blast
qed

theorem date_time_merged_witness:
  "''Datetime'' \<in> set (columns (the (load_default_dataset demo_lib default_files))) \<and>
   ''Date'' \<notin> set (columns (the (load_default_dataset demo_lib default_files))) \<and>
   ''Time'' \<notin> set (columns (the (load_default_dataset demo_lib default_files))) \<and>
   distinct (columns (the (load_default_dataset demo_lib default_files))) \<and>
   series ''Datetime'' (the (load_default_dataset demo_lib default_files)) =
     [(0, Ts 20061216172400), (2, Ts 20061216172600)]"
proof -
  have src: "DEFAULT_DATA_FILE default_files = Some three_readings"
    by (simp add: default_files_def no_files_def)
  have h: "''Date'' \<in> set three_readings_header" "''Time'' \<in> set three_readings_header"
    "distinct three_readings_header"
    by (simp_all add: three_readings_header_def)
  note inst = date_time_merged [of demo_lib default_files _ three_readings "CHR '';''",
      OF disjI1 three_readings_tokens h(1,2), OF conjI, OF three_readings_loaded conjI, OF src refl]
  have c: "series ''Datetime'' (the (load_default_dataset demo_lib default_files)) =
      [(0, Ts 20061216172400), (2, Ts 20061216172600)]"
    by code_simp
  show ?thesis
    using inst h(3) c by blast
qed

section \<open>A dataset of many flagged readings\<close>

lemma split_on_line: "c \<notin> set xs \<Longrightarrow> split_on c (xs @ c # ys) = xs # split_on c ys"
  by (induction xs) auto

lemma split_on_lines:
  "c \<notin> set l \<Longrightarrow> split_on c (concat (replicate n (l @ [c]))) = replicate n l @ [[]]"
  by (induction n) (simp_all add: split_on_line)

lemma many_readings_tokens:
  "tokenize demo_lib (CHR '';'') (many_readings n) =
     Inr (features, replicate n [''9'', ''0'', ''233'', ''23'', ''0'', ''2'', ''17''])"
proof -
  have nl: "CHR 0x0A \<notin> set feature_header" "CHR 0x0A \<notin> set high_reading"
    by (simp_all add: feature_header_def high_reading_def)
  have lines: "split_on (CHR 0x0A) (many_readings n) =
      feature_header # replicate n high_reading @ [[]]"
    unfolding many_readings_def
    using nl by (simp add: split_on_line split_on_lines)
  have h: "split_on (CHR '';'') feature_header = features"
    by (simp add: feature_header_def features_def)
  have r: "split_on (CHR '';'') high_reading = [''9'', ''0'', ''233'', ''23'', ''0'', ''2'', ''17'']"
    by (simp add: high_reading_def)
  have ne: "feature_header \<noteq> []" "high_reading \<noteq> []"
    by (simp_all add: feature_header_def high_reading_def)
  show ?thesis
    by (simp add: demo_lib_def demo_tokenize_def lines ne h r)
qed

lemma demo_fields:
  "tokenize demo_lib = demo_tokenize" "to_number demo_lib = demo_to_number"
  "to_datetime demo_lib = demo_to_datetime" "isoformat demo_lib = decimal"
  "transform demo_lib = demo_transform" "new_scaler demo_lib = 0"
  "fit_transform demo_lib = demo_fit_transform"
  "predict demo_lib = (\<lambda>md xs. Inr (map (\<lambda>x. if x > md then - 1 else 1) xs))"
  "decision_function demo_lib = (\<lambda>md xs. Inr (map (\<lambda>x. md - x) xs))"
  by (simp_all add: demo_lib_def)

lemma demo_numbers:
  "demo_to_number ''9'' = Some 9" "demo_to_number ''0'' = Some 0"
  "demo_to_number ''233'' = Some 233" "demo_to_number ''23'' = Some 23"
  "demo_to_number ''2'' = Some 2" "demo_to_number ''17'' = Some 17"
  by (simp_all add: demo_to_number_def is_digit_def digits_value_def)

lemma high_row_read:
  "(\<lambda>c. if c \<in> set features \<and> c \<noteq> ''Datetime''
        then coerce demo_lib
               (read_row [''?''] features [''9'', ''0'', ''233'', ''23'', ''0'', ''2'', ''17''] c)
        else read_row [''?''] features [''9'', ''0'', ''233'', ''23'', ''0'', ''2'', ''17''] c) =
   high_row"
  by (rule ext)
    (simp add: demo_fields high_row_def read_row_def field_def read_cell_def features_def
      STR_NA_VALUES_def demo_numbers)

lemma high_row_features:
  "map high_row features = [Num 9, Num 0, Num 233, Num 23, Num 0, Num 2, Num 17]"
  by (simp add: high_row_def features_def)

lemma zip_upt_replicate: "zip [0..<n] (replicate n x) = map (\<lambda>i. (i, x)) [0..<n]"
  by (simp add: zip_replicate2)

lemma many_readings_loaded:
  "load_default_dataset demo_lib (many_files n) =
     Some \<lparr>columns = features, rows = map (\<lambda>i. (i, high_row)) [0..<n]\<rparr>"
proof -
  have rd: "read_csv demo_lib (CHR '';'') [''?''] (many_readings n) =
      Inr \<lparr>columns = features,
           rows = map (\<lambda>i. (i, read_row [''?''] features
                    [''9'', ''0'', ''233'', ''23'', ''0'', ''2'', ''17''])) [0..<n]\<rparr>"
    by (simp add: read_csv_def call_def many_readings_tokens zip_upt_replicate)
  have nd: "''Date'' \<notin> set features"
    by (simp add: features_def)
  have nn: "list_all (\<lambda>c. high_row c \<noteq> NaN) features"
    by (simp add: high_row_def features_def)
  show ?thesis
    by (simp add: load_default_dataset_def many_files_def no_files_def rd preprocess_def
        handle_date_time_def nd dropna_def rows_to_numeric_columns o_def high_row_read nn)
qed

lemma mapE_const: "(\<And>x. x \<in> set xs \<Longrightarrow> f x = Inr e) \<Longrightarrow> mapE f xs = Inr (replicate (length xs) e)"
  by (induction xs) simp_all

lemma missing_features_many [simp]: "missing_features (many_frame n) = []"
  by (simp add: missing_features_def many_frame_def)

lemma detect_many:
  assumes "0 < n"
  shows "detect demo_lib 5 0 (many_frame n) = Inr (many_flagged n)"
proof -
  let ?X = "map (\<lambda>i. [Num 9, Num 0, Num 233, Num 23, Num 0, Num 2, Num 17]) [0..<n]"
  have "feature_matrix (many_frame n) = ?X"
    by (simp add: feature_matrix_def many_frame_def o_def high_row_features)
  then have sel: "select_features (many_frame n) = Inr ?X"
    by (simp add: select_features_def)
  have ne: "?X \<noteq> []"
    using assms by simp
  have tr: "call (transform demo_lib 0 ?X) = Inr (map (\<lambda>i. 9) [0..<n])"
    using ne by (simp add: call_def demo_fields demo_transform_def first_value_def o_def)
  have pr: "call (predict demo_lib 5 (map (\<lambda>i. 9) [0..<n])) = Inr (map (\<lambda>i. - 1) [0..<n])"
    by (simp add: call_def demo_fields o_def)
  have ds: "call (decision_function demo_lib 5 (map (\<lambda>i. 9) [0..<n])) =
      Inr (map (\<lambda>i. - 4) [0..<n])"
    by (simp add: call_def demo_fields o_def)
  have new: "''anomaly'' \<notin> set features" "''anomaly_score'' \<notin> set features"
    by (simp_all add: features_def)
  have s1: "set_column ''anomaly'' (map map_label (map (\<lambda>i. - 1) [0..<n])) (many_frame n) =
      Inr \<lparr>columns = features @ [''anomaly''],
           rows = map (\<lambda>i. (i, high_row(''anomaly'' := Num 1))) [0..<n]\<rparr>"
    by (simp add: set_column_def many_frame_def new map_label_def o_def zip_map_map
        zip_same_conv_map)
  have s2: "set_column ''anomaly_score'' (map Num (map (\<lambda>i. - 4) [0..<n]))
        \<lparr>columns = features @ [''anomaly''],
         rows = map (\<lambda>i. (i, high_row(''anomaly'' := Num 1))) [0..<n]\<rparr> =
      Inr (many_flagged n)"
    by (simp add: set_column_def many_flagged_def flagged_row_def new o_def zip_map_map
        zip_same_conv_map)
  show ?thesis
    unfolding detect_def by (simp only: sel tr pr ds s1 s2 bindE_Inr)
qed

lemma anomaly_rows_many: "anomaly_rows (many_flagged n) = map (\<lambda>i. (i, flagged_row)) [0..<n]"
  by (simp add: anomaly_rows_def many_flagged_def filter_map o_def flagged_row_def)

lemma flagged_row_values:
  "map flagged_row features = [Num 9, Num 0, Num 233, Num 23, Num 0, Num 2, Num 17]"
  "flagged_row ''anomaly_score'' = Num (- 4)"
  by (simp_all add: flagged_row_def high_row_def features_def)

lemma entry_many: "anomaly_entry demo_lib (many_flagged n) (i, flagged_row) = Inr high_entry"
  using flagged_row_values
  by (simp add: anomaly_entry_def row_datetime_def many_flagged_def float_cell_def
      high_entry_def features_def)

lemma entry_float_many:
  "anomaly_entry_float demo_lib (many_flagged n) (i, flagged_row) = Inr high_entry"
  using flagged_row_values
  by (simp add: anomaly_entry_float_def row_datetime_def many_flagged_def float_cell_def
      high_entry_def features_def)

lemma entry_many_any:
  "x \<in> set (map (\<lambda>i. (i, flagged_row)) [0..<n]) \<Longrightarrow>
   anomaly_entry demo_lib (many_flagged n) x = Inr high_entry"
  by (auto simp: entry_many)

lemma entry_float_many_any:
  "x \<in> set (take m (map (\<lambda>i. (i, flagged_row)) [0..<n])) \<Longrightarrow>
   anomaly_entry_float demo_lib (many_flagged n) x = Inr high_entry"
  by (auto simp: entry_float_many dest!: in_set_takeD)

lemma predict_many_run:
  assumes "0 < n"
  shows "predict_anomalies demo_lib trained (many_files n) None =
     Inr \<lparr>anomalies = replicate n high_entry, anomaly_count = n, total_records = n,
          anomaly_percentage = 100\<rparr>"
proof -
  have e: "mapE (anomaly_entry demo_lib (many_flagged n)) (map (\<lambda>i. (i, flagged_row)) [0..<n]) =
      Inr (replicate n high_entry)"
    using mapE_const [of "map (\<lambda>i. (i, flagged_row)) [0..<n]"
        "anomaly_entry demo_lib (many_flagged n)" high_entry, OF entry_many_any]
    by simp
  have len: "length (rows (many_flagged n)) = n"
    by (simp add: many_flagged_def)
  have ne: "rows (many_flagged n) \<noteq> []"
    using assms by (simp add: many_flagged_def)
  show ?thesis
    using assms ne
    by (simp add: predict_anomalies_def trained_def request_frame_def many_readings_loaded
        many_frame_def [symmetric] check_features_def detect_many anomaly_rows_many e
        make_response_def len except_Exception_def)
qed

lemma get_anomalies_many_run:
  assumes "0 < n"
  shows "snd (get_anomalies demo_lib trained (many_files n) None None None) =
     Inr \<lparr>anomalies = replicate (min n 1000) high_entry, anomaly_count = min n 1000,
          total_records = n, anomaly_percentage = of_nat (min n 1000) / of_nat n * 100\<rparr>"
proof -
  have e: "mapE (anomaly_entry_float demo_lib (many_flagged n))
        (take 1000 (map (\<lambda>i. (i, flagged_row)) [0..<n])) =
      Inr (replicate (min n 1000) high_entry)"
    using mapE_const [of "take 1000 (map (\<lambda>i. (i, flagged_row)) [0..<n])"
        "anomaly_entry_float demo_lib (many_flagged n)" high_entry, OF entry_float_many_any]
    by (simp add: min.commute)
  have len: "length (rows (many_flagged n)) = n" "length (rows (many_frame n)) = n"
    by (simp_all add: many_flagged_def many_frame_def)
  have nd: "''Datetime'' \<notin> set (columns (many_frame n))"
    by (simp add: many_frame_def features_def)
  have ne: "rows (many_flagged n) \<noteq> []" "rows (many_frame n) \<noteq> []"
    using assms by (simp_all add: many_flagged_def many_frame_def)
  show ?thesis
    using assms ne
    by (simp add: get_anomalies_def ensure_model_def trained_def many_readings_loaded
        many_frame_def [symmetric] filter_start_date_def filter_end_date_def truthy_def
        len detect_many anomaly_rows_many e max_anomalies_def make_response_def Let_def
        except_HTTPException_raise_def)
qed

section \<open>The cap on the anomalies list\<close>

lemma length_filter_insort_key:
  "length (filter P (insort_key k x xs)) = length (filter P (x # xs))"
  by (induction xs) auto

lemma length_filter_sort_key: "length (filter P (sort_key k xs)) = length (filter P xs)"
  by (induction xs) (simp_all add: length_filter_insort_key)

lemma anomaly_rows_sort_values:
  "length (anomaly_rows (sort_values_desc f df)) = length (anomaly_rows df)"
  by (simp add: anomaly_rows_def sort_values_desc_def length_filter_sort_key)

lemma rows_sort_values: "length (rows (sort_values_desc f df)) = length (rows df)"
  by (simp add: sort_values_desc_def)

lemma predict_success:
  assumes "predict_anomalies L st fs file = Inr r"
  shows "\<exists>md sc df0 df anoms.
           model st = Some md \<and> scaler st = Some sc \<and>
           request_frame L fs file = Inr df0 \<and> detect L md sc df0 = Inr df \<and>
           mapE (anomaly_entry L df) (anomaly_rows df) = Inr anoms \<and>
           r = make_response anoms df"
  using assms
  by (auto simp: predict_anomalies_def bindE_eq_Inr check_features_def
      split: option.splits if_splits)

lemma analyze_success:
  assumes "snd (analyze_default_dataset L st fs sample_size) = Inr r"
  shows "\<exists>md sc df0 df1 df anoms.
           model (ensure_model st fs) = Some md \<and> scaler (ensure_model st fs) = Some sc \<and>
           load_default_dataset L fs = Some df0 \<and>
           (df1 = df0 \<or> (\<exists>n. df1 = sample_rows L n df0)) \<and>
           detect L md sc df1 = Inr df \<and>
           mapE (anomaly_entry L df) (anomaly_rows df) = Inr anoms \<and>
           r = make_response anoms df"
  using assms
  by (auto simp: analyze_default_dataset_def Let_def bindE_eq_Inr
      split: option.splits if_splits)

lemma get_anomalies_success:
  assumes "snd (get_anomalies L st fs start_date end_date feature_filter) = Inr r"
  shows "\<exists>md sc df0 df1 df2.
           model (ensure_model st fs) = Some md \<and> scaler (ensure_model st fs) = Some sc \<and>
           load_default_dataset L fs = Some df0 \<and>
           filter_start_date L start_date df0 = Inr df1 \<and>
           filter_end_date L end_date df1 = Inr df2 \<and>
           (if rows df2 = [] then r = empty_response
            else \<exists>df3 df anoms.
                   detect L md sc df2 = Inr df3 \<and>
                   (df = df3 \<or> (\<exists>f. df = sort_values_desc f df3)) \<and>
                   mapE (anomaly_entry_float L df) (take max_anomalies (anomaly_rows df)) =
                     Inr anoms \<and>
                   r = make_response anoms df)"
proof -
  let ?st = "ensure_model st fs"
  from assms obtain md sc where m: "model ?st = Some md" "scaler ?st = Some sc"
    by (auto simp: get_anomalies_def Let_def split: option.splits)
  with assms obtain df0 where l: "load_default_dataset L fs = Some df0"
    by (auto simp: get_anomalies_def Let_def split: option.splits)
  from assms m l obtain df1 df2 where f: "filter_start_date L start_date df0 = Inr df1"
    "filter_end_date L end_date df1 = Inr df2"
    and b: "(if length (rows df2) = 0 then Inr empty_response
             else bindE (detect L md sc df2) (\<lambda>df3.
               let df = (if truthy feature_filter \<and> the feature_filter \<in> set features
                         then sort_values_desc (the feature_filter) df3 else df3)
               in bindE (mapE (anomaly_entry_float L df) (take max_anomalies (anomaly_rows df)))
                    (\<lambda>anoms. Inr (make_response anoms df)))) = Inr r"
    by (auto simp: get_anomalies_def Let_def bindE_eq_Inr)
  show ?thesis
  proof (cases "rows df2 = []")
    case True
    with b have "r = empty_response"
      by simp
    with m l f True show ?thesis
      by auto
  next
    case False
    let ?df = "\<lambda>df3. if truthy feature_filter \<and> the feature_filter \<in> set features
      then sort_values_desc (the feature_filter) df3 else df3"
    from b False obtain df3 anoms where d: "detect L md sc df2 = Inr df3"
      and e: "mapE (anomaly_entry_float L (?df df3)) (take max_anomalies (anomaly_rows (?df df3))) =
        Inr anoms"
      and r: "r = make_response anoms (?df df3)"
      by (auto simp: bindE_eq_Inr Let_def)
    have "?df df3 = df3 \<or> (\<exists>f. ?df df3 = sort_values_desc f df3)"
      by auto
    with d e r have "\<exists>df3 df anoms.
        detect L md sc df2 = Inr df3 \<and> (df = df3 \<or> (\<exists>f. df = sort_values_desc f df3)) \<and>
        mapE (anomaly_entry_float L df) (take max_anomalies (anomaly_rows df)) = Inr anoms \<and>
        r = make_response anoms df"
      by blast
    with m l f False show ?thesis
      by auto
  qed
qed

lemma anomalies_make_response [simp]:
  "anomalies (make_response anoms df) = anoms"
  "anomaly_count (make_response anoms df) = length anoms"
  "total_records (make_response anoms df) = length (rows df)"
  by (simp_all add: make_response_def Let_def)

text \<open>
  Claim C2 says that all three prediction variants return at most 1000 anomalies. Only
  \<open>get_anomalies\<close> has the cap (lines 357-359). Here /predict, on a default dataset of
  1001 readings that the detector flags, answers with 1001 entries.
\<close>

theorem predict_1001_counterexample:
  "status (predict_anomalies demo_lib trained (many_files 1001) None) = 200 \<and>
   length (anomalies (projr (predict_anomalies demo_lib trained (many_files 1001) None))) = 1001"
  by (simp add: predict_many_run)

text \<open>
  Claim C2, amended. Every successful response of /anomalies holds at most 1000
  anomalies. A successful response of /predict or of /analyze-default-data holds one entry
  for every row that detection flags in the frame of the request (for
  /analyze-default-data the default dataset or a sample of it), however many there are.
\<close>

theorem cap_only_in_get_anomalies:
  "(snd (get_anomalies L st fs start_date end_date feature_filter) = Inr r \<longrightarrow>
      length (anomalies r) \<le> 1000) \<and>
   (predict_anomalies L st fs file = Inr r \<longrightarrow>
      (\<exists>md sc df0 df.
         model st = Some md \<and> scaler st = Some sc \<and>
         request_frame L fs file = Inr df0 \<and> detect L md sc df0 = Inr df \<and>
         length (anomalies r) = length (anomaly_rows df))) \<and>
   (snd (analyze_default_dataset L st fs sample_size) = Inr r \<longrightarrow>
      (\<exists>md sc df0 df1 df.
         model (ensure_model st fs) = Some md \<and> scaler (ensure_model st fs) = Some sc \<and>
         load_default_dataset L fs = Some df0 \<and>
         (df1 = df0 \<or> (\<exists>n. df1 = sample_rows L n df0)) \<and>
         detect L md sc df1 = Inr df \<and>
         length (anomalies r) = length (anomaly_rows df)))"
proof (intro conjI impI)
  assume "snd (get_anomalies L st fs start_date end_date feature_filter) = Inr r"
  from get_anomalies_success [OF this] show "length (anomalies r) \<le> 1000"
    by (auto simp: empty_response_def max_anomalies_def dest!: mapE_length split: if_splits)
next
  assume "predict_anomalies L st fs file = Inr r"
  from predict_success [OF this] show "\<exists>md sc df0 df.
         model st = Some md \<and> scaler st = Some sc \<and>
         request_frame L fs file = Inr df0 \<and> detect L md sc df0 = Inr df \<and>
         length (anomalies r) = length (anomaly_rows df)"
    by (auto dest!: mapE_length)
next
  assume "snd (analyze_default_dataset L st fs sample_size) = Inr r"
  from analyze_success [OF this] obtain md sc df0 df1 df anoms where
    h: "model (ensure_model st fs) = Some md" "scaler (ensure_model st fs) = Some sc"
      "load_default_dataset L fs = Some df0" "df1 = df0 \<or> (\<exists>n. df1 = sample_rows L n df0)"
      "detect L md sc df1 = Inr df"
    and e: "mapE (anomaly_entry L df) (anomaly_rows df) = Inr anoms"
    and r: "r = make_response anoms df"
    by blast
  have "length (anomalies r) = length (anomaly_rows df)"
    using mapE_length [OF e] by (simp add: r)
  with h show "\<exists>md sc df0 df1 df.
         model (ensure_model st fs) = Some md \<and> scaler (ensure_model st fs) = Some sc \<and>
         load_default_dataset L fs = Some df0 \<and>
         (df1 = df0 \<or> (\<exists>n. df1 = sample_rows L n df0)) \<and>
         detect L md sc df1 = Inr df \<and>
         length (anomalies r) = length (anomaly_rows df)"
    by blast
qed

lemma get_anomalies_1001_run:
  "snd (get_anomalies demo_lib trained (many_files 1001) None None None) = Inr capped_response"
  by (simp add: get_anomalies_many_run capped_response_def)

theorem cap_only_in_get_anomalies_witness:
  "snd (get_anomalies demo_lib trained (many_files 1001) None None None) = Inr capped_response \<and>
   length (anomalies capped_response) \<le> 1000"
  using cap_only_in_get_anomalies [of demo_lib trained "many_files 1001" None None None
      capped_response] get_anomalies_1001_run
  by simp

section \<open>The reported count\<close>

text \<open>
  Claim C9. In every successful response of the three prediction endpoints
  \<open>anomaly_count\<close> is the length of the \<open>anomalies\<close> list. For /anomalies, unless the
  filtered dataset is empty, the count is the smaller of 1000 and the number of flagged
  rows, so with more than 1000 flagged rows the response reports 1000 anomalies and the
  percentage \<open>1000 / total_records * 100\<close>.
\<close>

theorem count_is_length:
  "(predict_anomalies L st fs file = Inr r \<or>
    snd (get_anomalies L st fs start_date end_date feature_filter) = Inr r \<or>
    snd (analyze_default_dataset L st fs sample_size) = Inr r \<longrightarrow>
      anomaly_count r = length (anomalies r)) \<and>
   (snd (get_anomalies L st fs start_date end_date feature_filter) = Inr r \<longrightarrow>
      r = empty_response \<or>
      (\<exists>md sc df0 df1 df2 df.
         model (ensure_model st fs) = Some md \<and> scaler (ensure_model st fs) = Some sc \<and>
         load_default_dataset L fs = Some df0 \<and>
         filter_start_date L start_date df0 = Inr df1 \<and>
         filter_end_date L end_date df1 = Inr df2 \<and>
         detect L md sc df2 = Inr df \<and>
         total_records r = length (rows df) \<and>
         anomaly_count r = min 1000 (length (anomaly_rows df)) \<and>
         (1000 < length (anomaly_rows df) \<longrightarrow>
            anomaly_count r = 1000 \<and>
            anomaly_percentage r = 1000 / of_nat (length (rows df)) * 100)))"
proof (intro conjI impI)
  assume "predict_anomalies L st fs file = Inr r \<or>
    snd (get_anomalies L st fs start_date end_date feature_filter) = Inr r \<or>
    snd (analyze_default_dataset L st fs sample_size) = Inr r"
  then show "anomaly_count r = length (anomalies r)"
    by (auto dest!: predict_shape analyze_shape get_anomalies_shape simp: empty_response_def)
next
  assume a: "snd (get_anomalies L st fs start_date end_date feature_filter) = Inr r"
  from get_anomalies_success [OF a] obtain md sc df0 df1 df2 where
    m: "model (ensure_model st fs) = Some md" "scaler (ensure_model st fs) = Some sc"
    and l: "load_default_dataset L fs = Some df0"
    and f: "filter_start_date L start_date df0 = Inr df1" "filter_end_date L end_date df1 = Inr df2"
    and b: "if rows df2 = [] then r = empty_response
            else \<exists>df3 df anoms.
                   detect L md sc df2 = Inr df3 \<and>
                   (df = df3 \<or> (\<exists>f. df = sort_values_desc f df3)) \<and>
                   mapE (anomaly_entry_float L df) (take max_anomalies (anomaly_rows df)) =
                     Inr anoms \<and>
                   r = make_response anoms df"
    by blast
  show "r = empty_response \<or>
      (\<exists>md sc df0 df1 df2 df.
         model (ensure_model st fs) = Some md \<and> scaler (ensure_model st fs) = Some sc \<and>
         load_default_dataset L fs = Some df0 \<and>
         filter_start_date L start_date df0 = Inr df1 \<and>
         filter_end_date L end_date df1 = Inr df2 \<and>
         detect L md sc df2 = Inr df \<and>
         total_records r = length (rows df) \<and>
         anomaly_count r = min 1000 (length (anomaly_rows df)) \<and>
         (1000 < length (anomaly_rows df) \<longrightarrow>
            anomaly_count r = 1000 \<and>
            anomaly_percentage r = 1000 / of_nat (length (rows df)) * 100))"
  proof (cases "rows df2 = []")
    case True
    with b show ?thesis
      by simp
  next
    case False
    with b obtain df3 df anoms where d: "detect L md sc df2 = Inr df3"
      and s: "df = df3 \<or> (\<exists>f. df = sort_values_desc f df3)"
      and e: "mapE (anomaly_entry_float L df) (take max_anomalies (anomaly_rows df)) = Inr anoms"
      and r: "r = make_response anoms df"
      by auto
    from s have same: "length (rows df) = length (rows df3)"
      "length (anomaly_rows df) = length (anomaly_rows df3)"
      by (auto simp: rows_sort_values anomaly_rows_sort_values)
    from mapE_length [OF e] have n: "length anoms = min 1000 (length (anomaly_rows df3))"
      by (simp add: max_anomalies_def same min.commute)
    have t: "total_records r = length (rows df3)"
      by (simp add: r same)
    have c: "anomaly_count r = min 1000 (length (anomaly_rows df3))"
      by (simp add: r n)
    have p: "anomaly_percentage r = 1000 / of_nat (length (rows df3)) * 100"
      if "1000 < length (anomaly_rows df3)"
    proof -
      have "length (anomaly_rows df3) \<le> length (rows df3)"
        by (simp add: anomaly_rows_def)
      with that have "0 < length (rows df3)"
        by linarith
      with that show ?thesis
        by (simp add: r make_response_def Let_def n same)
    qed
    from m l f d t c p show ?thesis
      by (intro disjI2 exI [of _ md] exI [of _ sc] exI [of _ df0] exI [of _ df1]
          exI [of _ df2] exI [of _ df3]) simp
  qed
qed

theorem count_is_length_witness:
  "snd (get_anomalies demo_lib trained (many_files 1001) None None None) = Inr capped_response \<and>
   length (anomaly_rows (many_flagged 1001)) = 1001 \<and>
   anomaly_count capped_response = length (anomalies capped_response) \<and>
   anomaly_count capped_response = 1000 \<and>
   anomaly_percentage capped_response = 1000 / 1001 * 100"
proof -
  note run = get_anomalies_1001_run
  note inst = count_is_length [of demo_lib trained "many_files 1001" None capped_response
      None None None None]
  from inst run have a: "anomaly_count capped_response = length (anomalies capped_response)"
    by blast
  have ne: "capped_response \<noteq> empty_response"
    by (simp add: capped_response_def empty_response_def)
  have st: "ensure_model trained (many_files 1001) = trained"
    by (simp add: ensure_model_def trained_def)
  have fl: "filter_start_date demo_lib None df = Inr df" "filter_end_date demo_lib None df = Inr df"
    for df
    by (simp_all add: filter_start_date_def filter_end_date_def truthy_def)
  have big: "length (anomaly_rows (many_flagged 1001)) = 1001"
    by (simp add: anomaly_rows_many)
  from inst run ne obtain md sc df0 df1 df2 df where
    h: "model (ensure_model trained (many_files 1001)) = Some md"
      "scaler (ensure_model trained (many_files 1001)) = Some sc"
      "load_default_dataset demo_lib (many_files 1001) = Some df0"
      "filter_start_date demo_lib None df0 = Inr df1"
      "filter_end_date demo_lib None df1 = Inr df2"
      "detect demo_lib md sc df2 = Inr df"
    and c: "1000 < length (anomaly_rows df) \<longrightarrow>
        anomaly_count capped_response = 1000 \<and>
        anomaly_percentage capped_response = 1000 / of_nat (length (rows df)) * 100"
    by blast
  from h(1,2) have "md = 5" "sc = 0"
    unfolding st by (simp_all add: trained_def)
  moreover from h(3,4,5) have "df0 = many_frame 1001" "df1 = df0" "df2 = df1"
    by (simp_all add: many_readings_loaded many_frame_def fl)
  ultimately have "md = 5" "sc = 0" "df0 = many_frame 1001" "df1 = df0" "df2 = df1"
    by simp_all
  with h(6) have "df = many_flagged 1001"
    by (simp add: detect_many)
  with c big have "anomaly_count capped_response = 1000"
    "anomaly_percentage capped_response = 1000 / 1001 * 100"
    by (simp_all add: many_flagged_def)
  with a run big show ?thesis
    by simp
qed

section \<open>A start date after every record\<close>






end
